theory Spec2Isabelle
  imports Main "HOL-Library.Word" "HOL-Library.AList" "HOL-Library.Sublist"
begin

unbundle bit_operations_syntax

section \<open>Values, objects and exceptions\<close>

text \<open>
  The controllers handle their data through keyword dictionaries: \<^verbatim>\<open>model_dump()\<close>,
  \<^verbatim>\<open>Model(**kwargs)\<close>, \<^verbatim>\<open>setattr(obj, key, value)\<close>. An object is therefore an
  association list from attribute names to values, in insertion order as a Python dict.
  A \<open>char\<close> stands for one code point (U+0000 to U+00FF), so \<open>length\<close> is Python's
  \<^verbatim>\<open>len\<close> on the strings that can be written here.
\<close>

type_synonym uuid = "128 word"

text \<open>
  \<^verbatim>\<open>UUID.version\<close> of CPython: the four bits from bit 76 when the variant is the one of
  RFC 4122 (bit 63 set, bit 62 clear), and \<^verbatim>\<open>None\<close> otherwise. A field or a path
  parameter of type \<^verbatim>\<open>UUID4\<close> accepts the UUIDs of version 4.
\<close>

definition UUID_version :: "uuid \<Rightarrow> nat option" where
  "UUID_version u =
     (if bit u 63 \<and> \<not> bit u 62 then Some (unat (drop_bit 76 u AND 0xF)) else None)"

definition UUID4_valid :: "uuid \<Rightarrow> bool" where
  "UUID4_valid u = (UUID_version u = Some 4)"

text \<open>\<^verbatim>\<open>UUID(bytes=..., version=4)\<close>: the constructor overwrites the variant and the
  version bits of the 128-bit integer it is given.\<close>

definition UUID_set_version4 :: "uuid \<Rightarrow> uuid" where
  "UUID_set_version4 r =
     (((r AND NOT (push_bit 48 0xc000)) OR push_bit 48 0x8000)
        AND NOT (push_bit 64 0xf000)) OR push_bit 76 4"

datatype timezone = utc

text \<open>A \<^verbatim>\<open>datetime\<close>: the date and time it shows, counted in microseconds, and its
  time zone (\<open>None\<close> for a naive one).\<close>

record datetime =
  wall_clock :: int
  tzinfo :: "timezone option"

datatype val =
    VNone
  | VStr string
  | VInt int
  | VUuid uuid
  | VDatetime datetime
  | VObj "(string \<times> val) list"

type_synonym obj = "(string \<times> val) list"

datatype exc =
    HTTPException nat string
  | TypeError
  | AttributeError
  | ValidationError
  | SQLAlchemyError

definition getattr :: "obj \<Rightarrow> string \<Rightarrow> val option" where
  "getattr ob key = map_of ob key"

definition setattr :: "obj \<Rightarrow> string \<Rightarrow> val \<Rightarrow> obj" where
  "setattr ob key v = AList.update key v ob"

definition first :: "'a list \<Rightarrow> 'a option" where
  "first xs = (case xs of [] \<Rightarrow> None | x # _ \<Rightarrow> Some x)"

text \<open>\<^verbatim>\<open>f(a=x, **d)\<close>: Python raises TypeError when \<open>d\<close> repeats a keyword given by name.\<close>

definition call_kwargs :: "obj \<Rightarrow> obj \<Rightarrow> exc + obj" where
  "call_kwargs named unpacked =
     (if list_ex (\<lambda>k. k \<in> set (map fst named)) (map fst unpacked)
      then Inl TypeError else Inr (named @ unpacked))"

text \<open>\<^verbatim>\<open>model_dump(exclude={...})\<close>\<close>

definition model_dump_exclude :: "string list \<Rightarrow> obj \<Rightarrow> obj" where
  "model_dump_exclude keys ob = filter (\<lambda>kv. fst kv \<notin> set keys) ob"

text \<open>\<^verbatim>\<open>str(uuid)\<close> as CPython's \<^verbatim>\<open>UUID.__str__\<close> writes it: 32 lower-case hexadecimal
  digits of the 128-bit integer, grouped 8-4-4-4-12.\<close>

definition hex_digit :: "nat \<Rightarrow> char" where
  "hex_digit d = ''0123456789abcdef'' ! (d mod 16)"

fun hex :: "nat \<Rightarrow> nat \<Rightarrow> string" where
  "hex 0 n = []"
| "hex (Suc k) n = hex k (n div 16) @ [hex_digit n]"

definition uuid_str :: "uuid \<Rightarrow> string" where
  "uuid_str u =
     (let h = hex 32 (unat u)
      in take 8 h @ ''-'' @ take 4 (drop 8 h) @ ''-'' @ take 4 (drop 12 h) @ ''-''
         @ take 4 (drop 16 h) @ ''-'' @ drop 20 h)"

section \<open>Schemas\<close>

text \<open>\<^verbatim>\<open>centro_treinamento/schemas.py\<close>. \<^verbatim>\<open>CentroTreinamentoOut\<close> inherits the three
  fields of \<^verbatim>\<open>CentroTreinamentoIn\<close> and adds \<^verbatim>\<open>id\<close>.\<close>

record CentroTreinamentoIn =
  nome :: string
  endereco :: string
  proprietario :: string

record CentroTreinamentoAtleta =
  nome :: string

definition CentroTreinamentoAtleta_valid :: "CentroTreinamentoAtleta \<Rightarrow> bool" where
  "CentroTreinamentoAtleta_valid c = (length (CentroTreinamentoAtleta.nome c) \<le> 20)"

record CentroTreinamentoOut = CentroTreinamentoIn +
  id' :: uuid

text \<open>The \<^verbatim>\<open>max_length\<close> bounds of the fields.\<close>

definition max_lengths_ok :: "string \<Rightarrow> string \<Rightarrow> string \<Rightarrow> bool" where
  "max_lengths_ok n e p = (length n \<le> 20 \<and> length e \<le> 60 \<and> length p \<le> 30)"

definition CentroTreinamentoIn_valid :: "CentroTreinamentoIn \<Rightarrow> bool" where
  "CentroTreinamentoIn_valid c =
     max_lengths_ok (CentroTreinamentoIn.nome c) (endereco c) (proprietario c)"

definition CentroTreinamentoIn_model_dump :: "CentroTreinamentoIn \<Rightarrow> obj" where
  "CentroTreinamentoIn_model_dump c =
     [(''nome'', VStr (CentroTreinamentoIn.nome c)),
      (''endereco'', VStr (endereco c)),
      (''proprietario'', VStr (proprietario c))]"

text \<open>Validation of \<^verbatim>\<open>CentroTreinamentoOut\<close>, from keyword arguments and (as a
  response model) from the attributes of a row: the \<^verbatim>\<open>id\<close> is a \<^verbatim>\<open>UUID4\<close>, the three
  strings keep their bounds.\<close>

definition CentroTreinamentoOut_validate :: "obj \<Rightarrow> exc + CentroTreinamentoOut" where
  "CentroTreinamentoOut_validate kw =
     (case (getattr kw ''id'', getattr kw ''nome'', getattr kw ''endereco'',
            getattr kw ''proprietario'') of
        (Some (VUuid i), Some (VStr n), Some (VStr e), Some (VStr p)) \<Rightarrow>
          if UUID4_valid i \<and> max_lengths_ok n e p
          then Inr \<lparr>CentroTreinamentoIn.nome = n, endereco = e, proprietario = p, id' = i\<rparr>
          else Inl ValidationError
      | _ \<Rightarrow> Inl ValidationError)"

definition CentroTreinamentoOut_model_dump :: "CentroTreinamentoOut \<Rightarrow> obj" where
  "CentroTreinamentoOut_model_dump c =
     [(''nome'', VStr (CentroTreinamentoIn.nome c)),
      (''endereco'', VStr (endereco c)),
      (''proprietario'', VStr (proprietario c)),
      (''id'', VUuid (id' c))]"

text \<open>
  Modelled from the spec: \<^verbatim>\<open>atleta/schemas.py\<close> and \<^verbatim>\<open>categorias/schemas.py\<close> are not
  among the sources. The spec gives the create payload as "athlete fields + category
  name + training-center name", the update payload as "all fields optional", and the
  controller reads \<^verbatim>\<open>atleta_in.categoria.nome\<close> and
  \<^verbatim>\<open>atleta_in.centro_treinamento.nome\<close>. The athlete's own fields, whose names the
  sources do not show, are the dictionary \<open>campos\<close>; an update payload is the
  dictionary of the fields the caller set.
\<close>

record CategoriaIn =
  nome :: string

record AtletaIn =
  campos :: obj
  categoria :: CategoriaIn
  centro_treinamento :: CentroTreinamentoAtleta

record AtletaUpdate =
  fields_set :: obj

text \<open>Of the fields of \<^verbatim>\<open>AtletaIn\<close> the sources bound one: the \<^verbatim>\<open>nome\<close> of
  \<^verbatim>\<open>CentroTreinamentoAtleta\<close>.\<close>

definition AtletaIn_valid :: "AtletaIn \<Rightarrow> bool" where
  "AtletaIn_valid a = CentroTreinamentoAtleta_valid (AtletaIn.centro_treinamento a)"

definition AtletaIn_model_dump :: "AtletaIn \<Rightarrow> obj" where
  "AtletaIn_model_dump a =
     campos a @
     [(''categoria'', VObj [(''nome'', VStr (CategoriaIn.nome (AtletaIn.categoria a)))]),
      (''centro_treinamento'',
        VObj [(''nome'', VStr (CentroTreinamentoAtleta.nome (AtletaIn.centro_treinamento a)))])]"

definition model_dump_exclude_unset :: "AtletaUpdate \<Rightarrow> obj" where
  "model_dump_exclude_unset u = fields_set u"

definition CategoriaIn_model_dump :: "CategoriaIn \<Rightarrow> obj" where
  "CategoriaIn_model_dump c = [(''nome'', VStr (CategoriaIn.nome c))]"

section \<open>The database and the session\<close>

text \<open>
  Modelled from the spec: the ORM models (\<^verbatim>\<open>*/models.py\<close>) and the session dependency
  (\<^verbatim>\<open>contrib/dependencies.py\<close>) are not among the sources. The spec names them "a
  relational database session (select-by-filter, insert, update, delete, commit)",
  "supplied per-request". A row is the dictionary of its columns; \<^verbatim>\<open>pk_id\<close> is the
  primary key the database assigns on insert. The session keeps the unit of work
  (objects added, attributes set on loaded objects, objects marked for deletion) and
  sends it to the database only when \<^verbatim>\<open>commit\<close> runs; closing the session drops what
  was not committed.
\<close>

datatype model = CategoriaModel | CentroTreinamentoModel | AtletaModel

record database =
  categorias :: "obj list"
  centros_treinamento :: "obj list"
  atletas :: "obj list"

definition empty_database :: database where
  "empty_database = \<lparr>categorias = [], centros_treinamento = [], atletas = []\<rparr>"

definition table :: "model \<Rightarrow> database \<Rightarrow> obj list" where
  "table m d =
     (case m of CategoriaModel \<Rightarrow> categorias d
      | CentroTreinamentoModel \<Rightarrow> centros_treinamento d
      | AtletaModel \<Rightarrow> atletas d)"

definition table_update :: "model \<Rightarrow> (obj list \<Rightarrow> obj list) \<Rightarrow> database \<Rightarrow> database" where
  "table_update m f d =
     (case m of CategoriaModel \<Rightarrow> d\<lparr>categorias := f (categorias d)\<rparr>
      | CentroTreinamentoModel \<Rightarrow> d\<lparr>centros_treinamento := f (centros_treinamento d)\<rparr>
      | AtletaModel \<Rightarrow> d\<lparr>atletas := f (atletas d)\<rparr>)"

definition pk_of :: "obj \<Rightarrow> int" where
  "pk_of r = (case getattr r ''pk_id'' of Some (VInt k) \<Rightarrow> k | _ \<Rightarrow> 0)"

definition next_pk :: "obj list \<Rightarrow> int" where
  "next_pk rows = foldr max (map pk_of rows) 0 + 1"

definition insert_row :: "model \<Rightarrow> obj \<Rightarrow> database \<Rightarrow> database" where
  "insert_row m ob d =
     table_update m (\<lambda>rows. rows @ [setattr ob ''pk_id'' (VInt (next_pk rows))]) d"

definition update_row :: "model \<Rightarrow> val option \<Rightarrow> string \<Rightarrow> val \<Rightarrow> database \<Rightarrow> database" where
  "update_row m pk key v d =
     table_update m (map (\<lambda>r. if getattr r ''pk_id'' = pk then setattr r key v else r)) d"

definition delete_row :: "model \<Rightarrow> val option \<Rightarrow> database \<Rightarrow> database" where
  "delete_row m pk d = table_update m (filter (\<lambda>r. getattr r ''pk_id'' \<noteq> pk)) d"

record session =
  bind :: database
  new :: "(model \<times> obj) list"
  dirty :: "(model \<times> val option \<times> string \<times> val) list"
  deleted :: "(model \<times> val option) list"

definition flush :: "session \<Rightarrow> database" where
  "flush s =
     fold (\<lambda>(m, pk). delete_row m pk) (deleted s)
       (fold (\<lambda>(m, ob). insert_row m ob) (new s)
         (fold (\<lambda>(m, pk, key, v). update_row m pk key v) (dirty s) (bind s)))"

definition get_session :: "database \<Rightarrow> session" where
  "get_session d = \<lparr>bind = d, new = [], dirty = [], deleted = []\<rparr>"

definition close :: "session \<Rightarrow> database" where
  "close s = bind s"

text \<open>
  What the handlers cannot compute: the 16 random bytes \<^verbatim>\<open>uuid4()\<close> draws (read as
  a 128-bit integer), the clock \<^verbatim>\<open>datetime.now\<close> reads, and whether the database
  rejects the commit (a constraint of the missing models, a lost connection).
\<close>

record env =
  urandom :: uuid
  clock :: int
  commit_fails :: bool

text \<open>\<^verbatim>\<open>uuid4()\<close> is \<^verbatim>\<open>UUID(bytes=os.urandom(16), version=4)\<close>.\<close>

definition uuid4 :: "env \<Rightarrow> uuid" where
  "uuid4 w = UUID_set_version4 (urandom w)"

definition datetime_now :: "timezone \<Rightarrow> env \<Rightarrow> datetime" where
  "datetime_now tz w = \<lparr>wall_clock = clock w, tzinfo = Some tz\<rparr>"

definition replace_tzinfo :: "datetime \<Rightarrow> timezone option \<Rightarrow> datetime" where
  "replace_tzinfo t tz = t\<lparr>tzinfo := tz\<rparr>"

text \<open>
  The session's \<^verbatim>\<open>execute\<close>, \<^verbatim>\<open>commit\<close>, \<^verbatim>\<open>refresh\<close> and \<^verbatim>\<open>delete\<close> are coroutine
  functions (the handlers \<^verbatim>\<open>await\<close> \<^verbatim>\<open>execute\<close> everywhere and \<^verbatim>\<open>commit\<close> in both
  \<^verbatim>\<open>post\<close> handlers). Calling one only builds a coroutine; its body runs when the
  coroutine is awaited. A coroutine is the function from the session to the outcome of
  its body, and \<open>await\<close> applies it.
\<close>

type_synonym 'a coroutine = "session \<Rightarrow> (exc + 'a) \<times> session"

definition await :: "'a coroutine \<Rightarrow> session \<Rightarrow> (exc + 'a) \<times> session" where
  "await c s = c s"

definition commit :: "env \<Rightarrow> unit coroutine" where
  "commit w s =
     (if commit_fails w then (Inl SQLAlchemyError, s)
      else (Inr (), \<lparr>bind = flush s, new = [], dirty = [], deleted = []\<rparr>))"

definition delete :: "model \<Rightarrow> obj \<Rightarrow> unit coroutine" where
  "delete m ob s = (Inr (), s\<lparr>deleted := deleted s @ [(m, getattr ob ''pk_id'')]\<rparr>)"

definition refresh :: "model \<Rightarrow> obj \<Rightarrow> obj coroutine" where
  "refresh m ob s =
     (case first (filter (\<lambda>r. getattr r ''pk_id'' = getattr ob ''pk_id'') (table m (bind s))) of
        None \<Rightarrow> (Inl SQLAlchemyError, s)
      | Some r \<Rightarrow> (Inr r, s))"

text \<open>\<^verbatim>\<open>(await db_session.execute(select(M).filter_by(key=v))).scalars()\<close>. Every handler
  selects before it changes anything, so the session has nothing to flush first.\<close>

definition select :: "model \<Rightarrow> session \<Rightarrow> obj list" where
  "select m s = table m (bind s)"

definition filter_by :: "string \<Rightarrow> val \<Rightarrow> obj list \<Rightarrow> obj list" where
  "filter_by key v rows = filter (\<lambda>r. getattr r key = Some v) rows"

definition add :: "model \<Rightarrow> obj \<Rightarrow> session \<Rightarrow> session" where
  "add m ob s = s\<lparr>new := new s @ [(m, ob)]\<rparr>"

text \<open>\<^verbatim>\<open>setattr\<close> on an object loaded by the session changes the object in memory and
  records the change in the unit of work.\<close>

definition orm_setattr :: "model \<Rightarrow> string \<times> val \<Rightarrow> obj \<times> session \<Rightarrow> obj \<times> session" where
  "orm_setattr m kv st =
     (case st of (ob, s) \<Rightarrow>
        (setattr ob (fst kv) (snd kv),
         s\<lparr>dirty := dirty s @ [(m, getattr ob ''pk_id'', fst kv, snd kv)]\<rparr>))"

text \<open>
  Modelled from the spec: \<^verbatim>\<open>AtletaOut\<close> as a response model reads an athlete row
  loaded by the session ("result mapped to an output schema"): the columns the row got
  from \<^verbatim>\<open>AtletaOut\<close> itself, and, through the two foreign keys, the names of the
  category and of the training center.
\<close>

definition relationship :: "model \<Rightarrow> val option \<Rightarrow> session \<Rightarrow> obj option" where
  "relationship m fk s =
     (case fk of None \<Rightarrow> None
      | Some k \<Rightarrow> first (filter_by ''pk_id'' k (select m s)))"

definition AtletaOut_model_validate :: "session \<Rightarrow> obj \<Rightarrow> exc + obj" where
  "AtletaOut_model_validate s atleta =
     (case relationship CategoriaModel (getattr atleta ''categoria_id'') s of
        None \<Rightarrow> Inl ValidationError
      | Some categoria_row \<Rightarrow>
          (case getattr categoria_row ''nome'' of
             None \<Rightarrow> Inl ValidationError
           | Some categoria_nome \<Rightarrow>
               (case relationship CentroTreinamentoModel
                       (getattr atleta ''centro_treinamento_id'') s of
                  None \<Rightarrow> Inl ValidationError
                | Some centro_treinamento_row \<Rightarrow>
                    (case getattr centro_treinamento_row ''nome'' of
                       None \<Rightarrow> Inl ValidationError
                     | Some centro_nome \<Rightarrow>
                         Inr (model_dump_exclude
                                [''pk_id'', ''categoria_id'', ''centro_treinamento_id'',
                                 ''categoria'', ''centro_treinamento''] atleta
                              @ [(''categoria'', VObj [(''nome'', categoria_nome)]),
                                 (''centro_treinamento'', VObj [(''nome'', centro_nome)])])))))"

fun traverse :: "('a \<Rightarrow> exc + 'b) \<Rightarrow> 'a list \<Rightarrow> exc + 'b list" where
  "traverse f [] = Inr []"
| "traverse f (x # xs) =
     (case f x of
        Inl e \<Rightarrow> Inl e
      | Inr y \<Rightarrow> (case traverse f xs of Inl e \<Rightarrow> Inl e | Inr ys \<Rightarrow> Inr (y # ys)))"

text \<open>\<^verbatim>\<open>fastapi_pagination.paginate\<close> with the request's \<^verbatim>\<open>limit\<close> and \<^verbatim>\<open>offset\<close>.
  The library takes a limit from 1 to 100 and an offset from 0.\<close>

record 'a LimitOffsetPage =
  items :: "'a list"
  total :: nat
  limit :: nat
  offset :: nat

definition LimitOffsetParams_valid :: "nat \<Rightarrow> nat \<Rightarrow> bool" where
  "LimitOffsetParams_valid lim off = (1 \<le> lim \<and> lim \<le> 100)"

definition paginate :: "nat \<Rightarrow> nat \<Rightarrow> 'a list \<Rightarrow> 'a LimitOffsetPage" where
  "paginate lim off xs =
     \<lparr>items = take lim (drop off xs), total = length xs, limit = lim, offset = off\<rparr>"

section \<open>The athlete controller\<close>

text \<open>\<^verbatim>\<open>atleta/controller.py\<close>. The messages are the f-strings of the source; \<open>CHR 0x27\<close>
  is the apostrophe and \<open>CHR 0xE3\<close> the letter a with tilde.\<close>

definition categoria_nao_encontrada :: "string \<Rightarrow> string" where
  "categoria_nao_encontrada categoria_name =
     ''A categoria '' @ [CHR 0x27] @ categoria_name @ [CHR 0x27] @ '' n'' @ [CHR 0xE3]
     @ ''o foi encontrada.''"

definition centro_nao_encontrado :: "string \<Rightarrow> string" where
  "centro_nao_encontrado centro_treinamento_nome =
     ''O centro de treinamento '' @ [CHR 0x27] @ centro_treinamento_nome @ [CHR 0x27]
     @ '' n'' @ [CHR 0xE3] @ ''o foi encontrado.''"

definition erro_ao_inserir :: string where
  "erro_ao_inserir = ''Ocorreu um erro ao inserir os dados no banco.''"

definition atleta_nao_encontrado :: "uuid \<Rightarrow> string" where
  "atleta_nao_encontrado i =
     ''Atleta n'' @ [CHR 0xE3] @ ''o encontrado no id: '' @ uuid_str i @ ''.''"

text \<open>The body of the \<^verbatim>\<open>try\<close> block of \<^verbatim>\<open>post\<close> (lines 53 to 63). The
  \<^verbatim>\<open>AtletaOut\<close> object is the dictionary of its keyword arguments.\<close>

definition atleta_post_try ::
  "env \<Rightarrow> AtletaIn \<Rightarrow> obj \<Rightarrow> obj \<Rightarrow> session \<Rightarrow> (exc + obj) \<times> session" where
  "atleta_post_try w atleta_in categoria_row centro_treinamento_row db_session =
     (case call_kwargs
             [(''id'', VUuid (uuid4 w)),
              (''create_at'', VDatetime (replace_tzinfo (datetime_now utc w) None))]
             (AtletaIn_model_dump atleta_in) of
        Inl e \<Rightarrow> (Inl e, db_session)
      | Inr atleta_out \<Rightarrow>
          (case getattr categoria_row ''pk_id'' of
             None \<Rightarrow> (Inl AttributeError, db_session)
           | Some categoria_pk \<Rightarrow>
               (case getattr centro_treinamento_row ''pk_id'' of
                  None \<Rightarrow> (Inl AttributeError, db_session)
                | Some centro_pk \<Rightarrow>
                    (let atleta_model =
                           setattr
                             (setattr
                               (model_dump_exclude [''categoria'', ''centro_treinamento'']
                                  atleta_out)
                               ''categoria_id'' categoria_pk)
                             ''centro_treinamento_id'' centro_pk
                     in case await (commit w) (add AtletaModel atleta_model db_session) of
                          (Inl e, s) \<Rightarrow> (Inl e, s)
                        | (Inr u, s) \<Rightarrow> (Inr atleta_out, s)))))"

definition atleta_post :: "env \<Rightarrow> AtletaIn \<Rightarrow> session \<Rightarrow> (exc + obj) \<times> session" where
  "atleta_post w atleta_in db_session =
     (let categoria_name = CategoriaIn.nome (AtletaIn.categoria atleta_in);
          centro_treinamento_nome =
            CentroTreinamentoAtleta.nome (AtletaIn.centro_treinamento atleta_in)
      in case first (filter_by ''nome'' (VStr categoria_name)
                       (select CategoriaModel db_session)) of
           None \<Rightarrow>
             (Inl (HTTPException 400 (categoria_nao_encontrada categoria_name)), db_session)
         | Some categoria_row \<Rightarrow>
             (case first (filter_by ''nome'' (VStr centro_treinamento_nome)
                            (select CentroTreinamentoModel db_session)) of
                None \<Rightarrow>
                  (Inl (HTTPException 400 (centro_nao_encontrado centro_treinamento_nome)),
                   db_session)
              | Some centro_treinamento_row \<Rightarrow>
                  (case atleta_post_try w atleta_in categoria_row centro_treinamento_row
                          db_session of
                     (Inl e, s) \<Rightarrow> (Inl (HTTPException 500 erro_ao_inserir), s)
                   | (Inr atleta_out, s) \<Rightarrow> (Inr atleta_out, s))))"

definition atleta_get_all ::
  "nat \<Rightarrow> nat \<Rightarrow> session \<Rightarrow> (exc + obj LimitOffsetPage) \<times> session" where
  "atleta_get_all lim off db_session =
     (let atletas_rows = select AtletaModel db_session
      in case traverse (AtletaOut_model_validate db_session) atletas_rows of
           Inl e \<Rightarrow> (Inl e, db_session)
         | Inr lista_atletas \<Rightarrow> (Inr (paginate lim off lista_atletas), db_session))"

definition atleta_get_by_id :: "uuid \<Rightarrow> session \<Rightarrow> (exc + obj) \<times> session" where
  "atleta_get_by_id i db_session =
     (case first (filter_by ''id'' (VUuid i) (select AtletaModel db_session)) of
        None \<Rightarrow> (Inl (HTTPException 404 (atleta_nao_encontrado i)), db_session)
      | Some atleta \<Rightarrow> (Inr atleta, db_session))"

text \<open>\<^verbatim>\<open>patch\<close>: lines 134 and 135 call \<^verbatim>\<open>db_session.commit()\<close> and
  \<^verbatim>\<open>db_session.refresh(atleta)\<close> without \<^verbatim>\<open>await\<close>; the two coroutines are built and
  dropped, so the session the handler leaves is the one after the \<^verbatim>\<open>setattr\<close> loop.\<close>

definition atleta_patch ::
  "env \<Rightarrow> uuid \<Rightarrow> AtletaUpdate \<Rightarrow> session \<Rightarrow> (exc + obj) \<times> session" where
  "atleta_patch w i atleta_update db_session =
     (case first (filter_by ''id'' (VUuid i) (select AtletaModel db_session)) of
        None \<Rightarrow> (Inl (HTTPException 404 (atleta_nao_encontrado i)), db_session)
      | Some atleta \<Rightarrow>
          (let atleta_up = model_dump_exclude_unset atleta_update;
               st = fold (orm_setattr AtletaModel) atleta_up (atleta, db_session);
               never_awaited_commit = commit w;
               never_awaited_refresh = refresh AtletaModel (fst st)
           in (Inr (fst st), snd st)))"

text \<open>The \<^verbatim>\<open>DELETE\<close> handler (the source names it \<^verbatim>\<open>get_by_id\<close> a second time): lines
  157 and 158 call \<^verbatim>\<open>db_session.delete(atleta)\<close> and \<^verbatim>\<open>db_session.commit()\<close> without
  \<^verbatim>\<open>await\<close>.\<close>

definition atleta_delete :: "env \<Rightarrow> uuid \<Rightarrow> session \<Rightarrow> (exc + unit) \<times> session" where
  "atleta_delete w i db_session =
     (case first (filter_by ''id'' (VUuid i) (select AtletaModel db_session)) of
        None \<Rightarrow> (Inl (HTTPException 404 (atleta_nao_encontrado i)), db_session)
      | Some atleta \<Rightarrow>
          (let never_awaited_delete = delete AtletaModel atleta;
               never_awaited_commit = commit w
           in (Inr (), db_session)))"

section \<open>The training-center controller\<close>

text \<open>\<^verbatim>\<open>centro_treinamento/controller.py\<close>.\<close>

definition centro_treinamento_nao_encontrado :: "uuid \<Rightarrow> string" where
  "centro_treinamento_nao_encontrado i =
     ''Centro de Treinamento n'' @ [CHR 0xE3] @ ''o encontrado no id: '' @ uuid_str i @ ''.''"

definition centro_treinamento_post ::
  "env \<Rightarrow> CentroTreinamentoIn \<Rightarrow> session \<Rightarrow> (exc + CentroTreinamentoOut) \<times> session" where
  "centro_treinamento_post w centro_treinamento_in db_session =
     (case call_kwargs [(''id'', VUuid (uuid4 w))]
             (CentroTreinamentoIn_model_dump centro_treinamento_in) of
        Inl e \<Rightarrow> (Inl e, db_session)
      | Inr kw \<Rightarrow>
          (case CentroTreinamentoOut_validate kw of
             Inl e \<Rightarrow> (Inl e, db_session)
           | Inr centro_treinamento_out \<Rightarrow>
               (let centro_treinamento_model =
                      CentroTreinamentoOut_model_dump centro_treinamento_out
                in case await (commit w)
                          (add CentroTreinamentoModel centro_treinamento_model db_session) of
                     (Inl e, s) \<Rightarrow> (Inl e, s)
                   | (Inr u, s) \<Rightarrow> (Inr centro_treinamento_out, s))))"

definition centro_treinamento_get_all ::
  "nat \<Rightarrow> nat \<Rightarrow> session \<Rightarrow> (exc + obj LimitOffsetPage) \<times> session" where
  "centro_treinamento_get_all lim off db_session =
     (let centros_rows = select CentroTreinamentoModel db_session
      in (Inr (paginate lim off centros_rows), db_session))"

definition centro_treinamento_get_by_id :: "uuid \<Rightarrow> session \<Rightarrow> (exc + obj) \<times> session" where
  "centro_treinamento_get_by_id i db_session =
     (case first (filter_by ''id'' (VUuid i) (select CentroTreinamentoModel db_session)) of
        None \<Rightarrow>
          (Inl (HTTPException 404 (centro_treinamento_nao_encontrado i)), db_session)
      | Some centro_treinamento_row \<Rightarrow> (Inr centro_treinamento_row, db_session))"

text \<open>
  Modelled from the spec: the category controller is not among the sources. The spec says
  it is "symmetric to Training Center: Create, List, Get by id"; only its create, which
  is what lets an athlete's category exist, is modelled, after
  \<open>centro_treinamento_post\<close> and with the one field \<^verbatim>\<open>nome\<close>.
\<close>

definition categoria_post :: "env \<Rightarrow> CategoriaIn \<Rightarrow> session \<Rightarrow> (exc + obj) \<times> session" where
  "categoria_post w categoria_in db_session =
     (case call_kwargs [(''id'', VUuid (uuid4 w))] (CategoriaIn_model_dump categoria_in) of
        Inl e \<Rightarrow> (Inl e, db_session)
      | Inr categoria_out \<Rightarrow>
          (case await (commit w) (add CategoriaModel categoria_out db_session) of
             (Inl e, s) \<Rightarrow> (Inl e, s)
           | (Inr u, s) \<Rightarrow> (Inr categoria_out, s)))"

section \<open>Requests and responses\<close>

text \<open>
  One request: the framework opens a session on the database, runs the handler, turns
  its result into a response (the route's status code and response model, or the status
  and detail of an \<^verbatim>\<open>HTTPException\<close>, or 500 for any other exception) and closes the
  session. A request body that breaks the input schema, a path id that is not a
  \<^verbatim>\<open>UUID4\<close> and a limit out of range are answered 422 before the handler runs.
\<close>

datatype request =
    PostAtleta AtletaIn
  | GetAllAtletas nat nat
  | GetAtleta uuid
  | PatchAtleta uuid AtletaUpdate
  | DeleteAtleta uuid
  | PostCentroTreinamento CentroTreinamentoIn
  | GetAllCentrosTreinamento nat nat
  | GetCentroTreinamento uuid
  | PostCategoria CategoriaIn

datatype content =
    NoContent
  | Detail string
  | InternalServerError
  | UnprocessableEntity
  | AtletaJson obj
  | AtletaPageJson "obj LimitOffsetPage"
  | CentroTreinamentoJson CentroTreinamentoOut
  | CentroTreinamentoPageJson "CentroTreinamentoOut LimitOffsetPage"
  | CategoriaJson obj

type_synonym response = "nat \<times> content"

definition respond :: "nat \<Rightarrow> ('a \<Rightarrow> exc + content) \<Rightarrow> exc + 'a \<Rightarrow> response" where
  "respond status_code response_model r =
     (case r of
        Inl (HTTPException code detail) \<Rightarrow> (code, Detail detail)
      | Inl e \<Rightarrow> (500, InternalServerError)
      | Inr x \<Rightarrow>
          (case response_model x of
             Inl e \<Rightarrow> (500, InternalServerError)
           | Inr c \<Rightarrow> (status_code, c)))"

definition atleta_response_model :: "session \<Rightarrow> obj \<Rightarrow> exc + content" where
  "atleta_response_model s x =
     (case AtletaOut_model_validate s x of Inl e \<Rightarrow> Inl e | Inr y \<Rightarrow> Inr (AtletaJson y))"

definition centro_response_model :: "obj \<Rightarrow> exc + content" where
  "centro_response_model x =
     (case CentroTreinamentoOut_validate x of
        Inl e \<Rightarrow> Inl e
      | Inr y \<Rightarrow> Inr (CentroTreinamentoJson y))"

definition centro_page_response_model :: "obj LimitOffsetPage \<Rightarrow> exc + content" where
  "centro_page_response_model p =
     (case traverse CentroTreinamentoOut_validate (items p) of
        Inl e \<Rightarrow> Inl e
      | Inr ys \<Rightarrow>
          Inr (CentroTreinamentoPageJson
                 \<lparr>items = ys, total = total p, limit = limit p, offset = offset p\<rparr>))"

fun handle :: "env \<Rightarrow> request \<Rightarrow> database \<Rightarrow> response \<times> database" where
  "handle w (PostAtleta atleta_in) d =
     (if AtletaIn_valid atleta_in
      then case atleta_post w atleta_in (get_session d) of
             (r, s) \<Rightarrow> (respond 201 (\<lambda>x. Inr (AtletaJson x)) r, close s)
      else ((422, UnprocessableEntity), d))"
| "handle w (GetAllAtletas lim off) d =
     (if LimitOffsetParams_valid lim off
      then case atleta_get_all lim off (get_session d) of
             (r, s) \<Rightarrow> (respond 200 (\<lambda>x. Inr (AtletaPageJson x)) r, close s)
      else ((422, UnprocessableEntity), d))"
| "handle w (GetAtleta i) d =
     (if UUID4_valid i
      then case atleta_get_by_id i (get_session d) of
             (r, s) \<Rightarrow> (respond 200 (atleta_response_model s) r, close s)
      else ((422, UnprocessableEntity), d))"
| "handle w (PatchAtleta i atleta_update) d =
     (if UUID4_valid i
      then case atleta_patch w i atleta_update (get_session d) of
             (r, s) \<Rightarrow> (respond 200 (atleta_response_model s) r, close s)
      else ((422, UnprocessableEntity), d))"
| "handle w (DeleteAtleta i) d =
     (if UUID4_valid i
      then case atleta_delete w i (get_session d) of
             (r, s) \<Rightarrow> (respond 204 (\<lambda>x. Inr NoContent) r, close s)
      else ((422, UnprocessableEntity), d))"
| "handle w (PostCentroTreinamento centro_treinamento_in) d =
     (if CentroTreinamentoIn_valid centro_treinamento_in
      then case centro_treinamento_post w centro_treinamento_in (get_session d) of
             (r, s) \<Rightarrow> (respond 201 (\<lambda>x. Inr (CentroTreinamentoJson x)) r, close s)
      else ((422, UnprocessableEntity), d))"
| "handle w (GetAllCentrosTreinamento lim off) d =
     (if LimitOffsetParams_valid lim off
      then case centro_treinamento_get_all lim off (get_session d) of
             (r, s) \<Rightarrow> (respond 200 centro_page_response_model r, close s)
      else ((422, UnprocessableEntity), d))"
| "handle w (GetCentroTreinamento i) d =
     (if UUID4_valid i
      then case centro_treinamento_get_by_id i (get_session d) of
             (r, s) \<Rightarrow> (respond 200 centro_response_model r, close s)
      else ((422, UnprocessableEntity), d))"
| "handle w (PostCategoria categoria_in) d =
     (case categoria_post w categoria_in (get_session d) of
        (r, s) \<Rightarrow> (respond 201 (\<lambda>x. Inr (CategoriaJson x)) r, close s))"

text \<open>The databases a sequence of requests can lead to.\<close>

inductive reaches :: "database \<Rightarrow> database \<Rightarrow> bool" where
  reaches_refl: "reaches d d"
| reaches_step: "reaches d d' \<Longrightarrow> reaches d (snd (handle w req d'))"

definition reachable :: "database \<Rightarrow> bool" where
  "reachable d = reaches empty_database d"

section \<open>Properties of a database\<close>

definition has_pk :: "obj \<Rightarrow> bool" where
  "has_pk r = (case getattr r ''pk_id'' of Some (VInt k) \<Rightarrow> True | _ \<Rightarrow> False)"

definition primary_key_ok :: "obj list \<Rightarrow> bool" where
  "primary_key_ok rows = (list_all has_pk rows \<and> distinct (map pk_of rows))"

text \<open>A foreign key is not null and exactly one row of the referenced table has it as
  its primary key.\<close>

definition references :: "val option \<Rightarrow> obj list \<Rightarrow> bool" where
  "references fk rows =
     (case fk of
        Some (VInt k) \<Rightarrow> length (filter_by ''pk_id'' (VInt k) rows) = 1
      | _ \<Rightarrow> False)"

definition foreign_keys_ok :: "database \<Rightarrow> bool" where
  "foreign_keys_ok d =
     list_all (\<lambda>a. references (getattr a ''categoria_id'') (categorias d)
                  \<and> references (getattr a ''centro_treinamento_id'') (centros_treinamento d))
       (atletas d)"

text \<open>The name of a stored training center keeps the bound of its input schema.\<close>

definition centro_names_ok :: "obj list \<Rightarrow> bool" where
  "centro_names_ok rows =
     list_all (\<lambda>t. case getattr t ''nome'' of Some (VStr n) \<Rightarrow> length n \<le> 20 | _ \<Rightarrow> True)
       rows"

definition wellformed :: "database \<Rightarrow> bool" where
  "wellformed d =
     (primary_key_ok (categorias d) \<and> primary_key_ok (centros_treinamento d)
      \<and> primary_key_ok (atletas d) \<and> foreign_keys_ok d
      \<and> centro_names_ok (centros_treinamento d))"

section \<open>The athlete's post when both names are found\<close>

text \<open>The representation \<^verbatim>\<open>post\<close> returns (line 53: the keyword arguments of
  \<^verbatim>\<open>AtletaOut\<close>), the row it hands to the session (lines 58 to 60), and the payloads
  that make the call of line 53 raise.\<close>

definition atleta_created :: "env \<Rightarrow> AtletaIn \<Rightarrow> obj" where
  "atleta_created w a =
     [(''id'', VUuid (uuid4 w)),
      (''create_at'', VDatetime \<lparr>wall_clock = clock w, tzinfo = None\<rparr>)]
     @ AtletaIn_model_dump a"

definition atleta_new_row :: "env \<Rightarrow> AtletaIn \<Rightarrow> val \<Rightarrow> val \<Rightarrow> obj" where
  "atleta_new_row w a kc kt =
     setattr
       (setattr
         (model_dump_exclude [''categoria'', ''centro_treinamento'']
            ([(''id'', VUuid (uuid4 w)),
              (''create_at'', VDatetime \<lparr>wall_clock = clock w, tzinfo = None\<rparr>)]
             @ AtletaIn_model_dump a))
         ''categoria_id'' kc)
       ''centro_treinamento_id'' kt"

definition repeats_keyword :: "AtletaIn \<Rightarrow> bool" where
  "repeats_keyword a = list_ex (\<lambda>k. k = ''id'' \<or> k = ''create_at'') (map fst (campos a))"

section \<open>An example run\<close>

text \<open>Three requests on the empty database: a category, a training center and an
  athlete are created. \<open>db1\<close>, \<open>db2\<close> and \<open>db3\<close> are the databases after each. The ids
  are version-4 UUIDs (\<^verbatim>\<open>11111111-1111-4111-8111-111111111111\<close> and so on), as
  \<^verbatim>\<open>uuid4\<close> returns and the \<^verbatim>\<open>UUID4\<close> path parameter accepts; the clock counts
  microseconds.\<close>

definition env1 :: env where
  "env1 = \<lparr>urandom = 0x11111111111141118111111111111111, clock = 1000, commit_fails = False\<rparr>"

definition env2 :: env where
  "env2 = \<lparr>urandom = 0x22222222222242228222222222222222, clock = 2000, commit_fails = False\<rparr>"

definition env3 :: env where
  "env3 = \<lparr>urandom = 0x33333333333343338333333333333333, clock = 3000, commit_fails = False\<rparr>"

definition env4 :: env where
  "env4 = \<lparr>urandom = 0x44444444444444448444444444444444, clock = 4000, commit_fails = True\<rparr>"

definition scale :: CategoriaIn where
  "scale = \<lparr>CategoriaIn.nome = ''Scale''\<rparr>"

definition ct_king :: CentroTreinamentoIn where
  "ct_king =
     \<lparr>CentroTreinamentoIn.nome = ''CT King'', endereco = ''Rua X, Q02'',
      proprietario = ''Marcos''\<rparr>"

definition joao :: AtletaIn where
  "joao =
     \<lparr>campos = [(''nome'', VStr ''Joao''), (''idade'', VInt 25)],
      categoria = \<lparr>CategoriaIn.nome = ''Scale''\<rparr>,
      centro_treinamento = \<lparr>CentroTreinamentoAtleta.nome = ''CT King''\<rparr>\<rparr>"

definition maria :: AtletaIn where
  "maria =
     \<lparr>campos = [(''nome'', VStr ''Maria''), (''idade'', VInt 31)],
      categoria = \<lparr>CategoriaIn.nome = ''Elite''\<rparr>,
      centro_treinamento = \<lparr>CentroTreinamentoAtleta.nome = ''CT King''\<rparr>\<rparr>"

definition maria21 :: AtletaIn where
  "maria21 =
     \<lparr>campos = [(''nome'', VStr ''Maria''), (''idade'', VInt 31)],
      categoria = \<lparr>CategoriaIn.nome = ''Elite''\<rparr>,
      centro_treinamento = \<lparr>CentroTreinamentoAtleta.nome = ''ABCDEFGHIJKLMNOPQRSTU''\<rparr>\<rparr>"

definition pedro21 :: AtletaIn where
  "pedro21 =
     \<lparr>campos = [(''nome'', VStr ''Pedro''), (''idade'', VInt 19)],
      categoria = \<lparr>CategoriaIn.nome = ''Scale''\<rparr>,
      centro_treinamento = \<lparr>CentroTreinamentoAtleta.nome = ''ABCDEFGHIJKLMNOPQRSTU''\<rparr>\<rparr>"

definition pedro :: AtletaIn where
  "pedro =
     \<lparr>campos = [(''nome'', VStr ''Pedro''), (''idade'', VInt 19)],
      categoria = \<lparr>CategoriaIn.nome = ''Scale''\<rparr>,
      centro_treinamento = \<lparr>CentroTreinamentoAtleta.nome = ''CT Queen''\<rparr>\<rparr>"

definition scale_row :: obj where
  "scale_row = [(''id'', VUuid 0x11111111111141118111111111111111), (''nome'', VStr ''Scale''), (''pk_id'', VInt 1)]"

definition ct_king_row :: obj where
  "ct_king_row =
     [(''nome'', VStr ''CT King''), (''endereco'', VStr ''Rua X, Q02''),
      (''proprietario'', VStr ''Marcos''), (''id'', VUuid 0x22222222222242228222222222222222), (''pk_id'', VInt 1)]"

definition joao_row :: obj where
  "joao_row =
     [(''id'', VUuid 0x33333333333343338333333333333333),
      (''create_at'', VDatetime \<lparr>wall_clock = 3000, tzinfo = None\<rparr>),
      (''nome'', VStr ''Joao''), (''idade'', VInt 25),
      (''categoria_id'', VInt 1), (''centro_treinamento_id'', VInt 1),
      (''pk_id'', VInt 1)]"

definition joao_out :: obj where
  "joao_out =
     [(''id'', VUuid 0x33333333333343338333333333333333),
      (''create_at'', VDatetime \<lparr>wall_clock = 3000, tzinfo = None\<rparr>),
      (''nome'', VStr ''Joao''), (''idade'', VInt 25),
      (''categoria'', VObj [(''nome'', VStr ''Scale'')]),
      (''centro_treinamento'', VObj [(''nome'', VStr ''CT King'')])]"

definition db1 :: database where
  "db1 = \<lparr>categorias = [scale_row], centros_treinamento = [], atletas = []\<rparr>"

definition db2 :: database where
  "db2 = \<lparr>categorias = [scale_row], centros_treinamento = [ct_king_row], atletas = []\<rparr>"

definition db3 :: database where
  "db3 =
     \<lparr>categorias = [scale_row], centros_treinamento = [ct_king_row],
      atletas = [joao_row]\<rparr>"

section \<open>Unfolding the model\<close>

lemmas example_defs = env1_def env2_def env3_def env4_def scale_def ct_king_def joao_def
  db1_def db2_def db3_def scale_row_def ct_king_row_def joao_row_def joao_out_def
  empty_database_def

lemmas session_defs = get_session_def close_def select_def table_def table_update_def
  filter_by_def first_def add_def await_def commit_def flush_def insert_row_def
  next_pk_def pk_of_def getattr_def setattr_def

lemmas handler_defs = atleta_post_def atleta_post_try_def atleta_get_by_id_def
  atleta_patch_def atleta_delete_def centro_treinamento_post_def
  centro_treinamento_get_by_id_def categoria_post_def call_kwargs_def
  model_dump_exclude_def model_dump_exclude_unset_def AtletaIn_model_dump_def
  CategoriaIn_model_dump_def CentroTreinamentoIn_model_dump_def
  CentroTreinamentoOut_model_dump_def CentroTreinamentoOut_validate_def
  CentroTreinamentoIn_valid_def max_lengths_ok_def respond_def atleta_response_model_def
  AtletaOut_model_validate_def relationship_def orm_setattr_def datetime_now_def
  replace_tzinfo_def erro_ao_inserir_def AtletaIn_valid_def
  CentroTreinamentoAtleta_valid_def LimitOffsetParams_valid_def UUID4_valid_def
  UUID_version_def uuid4_def UUID_set_version4_def Let_def

section \<open>Version-4 UUIDs\<close>

lemma bit_15: "bit (15::uuid) n = (n < 4)"
proof -
  have e: "(15::uuid) = mask 4" by (simp add: mask_eq_exp_minus_1)
  show ?thesis unfolding e by (simp only: bit_mask_iff) (auto simp: possible_bit_word)
qed

lemma bit_4: "bit (4::uuid) n = (n = 2)"
proof -
  have e: "(4::uuid) = push_bit 2 1" by simp
  show ?thesis unfolding e
    by (simp only: bit_push_bit_iff bit_1_iff) (auto simp: possible_bit_word)
qed

lemma UUID_set_version4_variant:
  "bit (UUID_set_version4 r) 63" "\<not> bit (UUID_set_version4 r) 62"
  by (simp_all add: UUID_set_version4_def bit_simps)

lemma UUID_set_version4_version: "drop_bit 76 (UUID_set_version4 r) AND 0xF = 4"
proof (rule bit_word_eqI)
  fix n assume "n < LENGTH(128)"
  consider "n = 0" | "n = 1" | "n = 2" | "n = 3" | "4 \<le> n" by linarith
  then show "bit (drop_bit 76 (UUID_set_version4 r) AND 0xF) n = bit (4::uuid) n"
  proof cases
    case 5
    then show ?thesis by (simp only: bit_and_iff bit_15 bit_4) auto
  qed (simp_all add: UUID_set_version4_def bit_simps)
qed

lemma UUID4_valid_uuid4: "UUID4_valid (uuid4 w)"
  by (simp add: UUID4_valid_def UUID_version_def uuid4_def UUID_set_version4_variant
        UUID_set_version4_version)

section \<open>Lookups\<close>

lemma first_filter_None: "\<not> list_ex P xs \<Longrightarrow> first (filter P xs) = None"
  by (induction xs) (auto simp: first_def)

lemma first_filter_Some:
  "list_ex P xs \<Longrightarrow> \<exists>x. first (filter P xs) = Some x \<and> x \<in> set xs \<and> P x"
  by (induction xs) (auto simp: first_def)

lemma sublist_categoria: "sublist n (categoria_nao_encontrada n)"
  unfolding categoria_nao_encontrada_def sublist_def
  by (rule exI[of _ "''A categoria '' @ [CHR 0x27]"],
      rule exI[of _ "[CHR 0x27] @ '' n'' @ [CHR 0xE3] @ ''o foi encontrada.''"]) simp

lemma sublist_centro: "sublist n (centro_nao_encontrado n)"
  unfolding centro_nao_encontrado_def sublist_def
  by (rule exI[of _ "''O centro de treinamento '' @ [CHR 0x27]"],
      rule exI[of _ "[CHR 0x27] @ '' n'' @ [CHR 0xE3] @ ''o foi encontrado.''"]) simp

lemma sublist_atleta_id: "sublist (uuid_str i) (atleta_nao_encontrado i)"
  unfolding atleta_nao_encontrado_def sublist_def
  by (rule exI[of _ "''Atleta n'' @ [CHR 0xE3] @ ''o encontrado no id: ''"],
      rule exI[of _ "''.''"]) simp

lemma sublist_centro_id: "sublist (uuid_str i) (centro_treinamento_nao_encontrado i)"
  unfolding centro_treinamento_nao_encontrado_def sublist_def
  by (rule exI[of _ "''Centro de Treinamento n'' @ [CHR 0xE3] @ ''o encontrado no id: ''"],
      rule exI[of _ "''.''"]) simp

section \<open>Creating an athlete\<close>

text \<open>
  C2, where the body breaks the input schema. On \<open>db3\<close> no category is named Elite, and
  the request \<open>maria21\<close>, whose training-center name has 21 characters, is answered 422
  before the handler runs, not 400.
\<close>

theorem atleta_post_unknown_categoria_long_centro:
  "\<not> list_ex (\<lambda>c. getattr c ''nome''
                     = Some (VStr (CategoriaIn.nome (AtletaIn.categoria maria21))))
        (categorias db3)
   \<and> length (CentroTreinamentoAtleta.nome (AtletaIn.centro_treinamento maria21)) = 21
   \<and> handle env3 (PostAtleta maria21) db3 = ((422, UnprocessableEntity), db3)"
  by (simp add: maria21_def db3_def scale_row_def getattr_def AtletaIn_valid_def
        CentroTreinamentoAtleta_valid_def)

text \<open>
  C2. When the body passes the input schema (the training-center name has at most 20
  characters) and no stored category has the name given in the create request, the
  request is answered 400 with the message that names that category, and the database is
  left as it was. Whether a stored training center has the training-center name plays no
  part: the category is looked up first.
\<close>

theorem atleta_post_unknown_categoria:
  assumes "AtletaIn_valid a"
    and "\<not> list_ex (\<lambda>c. getattr c ''nome''
                            = Some (VStr (CategoriaIn.nome (AtletaIn.categoria a))))
               (categorias d)"
  shows "handle w (PostAtleta a) d =
           ((400, Detail (categoria_nao_encontrada (CategoriaIn.nome (AtletaIn.categoria a)))),
            d)
         \<and> sublist (CategoriaIn.nome (AtletaIn.categoria a))
             (categoria_nao_encontrada (CategoriaIn.nome (AtletaIn.categoria a)))"
  using assms(1) first_filter_None[OF assms(2)]
  by (simp add: atleta_post_def get_session_def close_def select_def table_def
        filter_by_def respond_def sublist_categoria)

theorem atleta_post_unknown_categoria_witness:
  "AtletaIn_valid maria
   \<and> \<not> list_ex (\<lambda>c. getattr c ''nome''
                     = Some (VStr (CategoriaIn.nome (AtletaIn.categoria maria))))
        (categorias db3)
   \<and> handle env3 (PostAtleta maria) db3
     = ((400, Detail (categoria_nao_encontrada ''Elite'')), db3)
   \<and> sublist ''Elite'' (categoria_nao_encontrada ''Elite'')"
proof -
  have v: "AtletaIn_valid maria"
    by (simp add: maria_def AtletaIn_valid_def CentroTreinamentoAtleta_valid_def)
  have h: "\<not> list_ex (\<lambda>c. getattr c ''nome''
                             = Some (VStr (CategoriaIn.nome (AtletaIn.categoria maria))))
                (categorias db3)"
    by (simp add: maria_def db3_def scale_row_def getattr_def)
  show ?thesis
    using v h atleta_post_unknown_categoria[OF v h, of env3] by (simp add: maria_def)
qed

text \<open>
  C3, where the body breaks the input schema. On \<open>db3\<close> the category Scale is stored and
  no training center has the 21-character name of the request \<open>pedro21\<close>; the request is
  answered 422 before the handler runs, not 400.
\<close>

theorem atleta_post_unknown_centro_long_name:
  "list_ex (\<lambda>c. getattr c ''nome''
                     = Some (VStr (CategoriaIn.nome (AtletaIn.categoria pedro21))))
        (categorias db3)
   \<and> \<not> list_ex (\<lambda>c. getattr c ''nome''
                = Some (VStr (CentroTreinamentoAtleta.nome
                               (AtletaIn.centro_treinamento pedro21))))
               (centros_treinamento db3)
   \<and> length (CentroTreinamentoAtleta.nome (AtletaIn.centro_treinamento pedro21)) = 21
   \<and> handle env3 (PostAtleta pedro21) db3 = ((422, UnprocessableEntity), db3)"
  by (simp add: pedro21_def db3_def scale_row_def ct_king_row_def getattr_def
        AtletaIn_valid_def CentroTreinamentoAtleta_valid_def)

text \<open>
  C3. When the body passes the input schema (the training-center name has at most 20
  characters), a stored category has the name given in the create request and no stored
  training center has the training-center name, the request is answered 400 with the
  message that names the training center, and the database is left as it was: no athlete
  row is inserted.
\<close>

theorem atleta_post_unknown_centro:
  assumes valid: "AtletaIn_valid a"
    and cat: "list_ex (\<lambda>c. getattr c ''nome''
                            = Some (VStr (CategoriaIn.nome (AtletaIn.categoria a))))
               (categorias d)"
    and ct: "\<not> list_ex (\<lambda>c. getattr c ''nome''
                = Some (VStr (CentroTreinamentoAtleta.nome (AtletaIn.centro_treinamento a))))
               (centros_treinamento d)"
  shows "handle w (PostAtleta a) d =
           ((400, Detail (centro_nao_encontrado
                            (CentroTreinamentoAtleta.nome (AtletaIn.centro_treinamento a)))),
            d)
         \<and> sublist (CentroTreinamentoAtleta.nome (AtletaIn.centro_treinamento a))
             (centro_nao_encontrado
                (CentroTreinamentoAtleta.nome (AtletaIn.centro_treinamento a)))"
proof -
  obtain c where "first (filter (\<lambda>c. getattr c ''nome''
                            = Some (VStr (CategoriaIn.nome (AtletaIn.categoria a))))
               (categorias d)) = Some c"
    using first_filter_Some[OF cat] by blast
  then show ?thesis
    using valid first_filter_None[OF ct]
    by (simp add: atleta_post_def get_session_def close_def select_def table_def
        filter_by_def respond_def sublist_centro)
qed

theorem atleta_post_unknown_centro_witness:
  "AtletaIn_valid pedro
   \<and> list_ex (\<lambda>c. getattr c ''nome''
                     = Some (VStr (CategoriaIn.nome (AtletaIn.categoria pedro))))
        (categorias db3)
   \<and> \<not> list_ex (\<lambda>c. getattr c ''nome''
                = Some (VStr (CentroTreinamentoAtleta.nome (AtletaIn.centro_treinamento pedro))))
               (centros_treinamento db3)
   \<and> handle env3 (PostAtleta pedro) db3
     = ((400, Detail (centro_nao_encontrado ''CT Queen'')), db3)
   \<and> sublist ''CT Queen'' (centro_nao_encontrado ''CT Queen'')"
proof -
  have v: "AtletaIn_valid pedro"
    by (simp add: pedro_def AtletaIn_valid_def CentroTreinamentoAtleta_valid_def)
  have h1: "list_ex (\<lambda>c. getattr c ''nome''
                     = Some (VStr (CategoriaIn.nome (AtletaIn.categoria pedro))))
        (categorias db3)"
    by (simp add: pedro_def db3_def scale_row_def getattr_def)
  have h2: "\<not> list_ex (\<lambda>c. getattr c ''nome''
                = Some (VStr (CentroTreinamentoAtleta.nome (AtletaIn.centro_treinamento pedro))))
               (centros_treinamento db3)"
    by (simp add: pedro_def db3_def ct_king_row_def getattr_def)
  show ?thesis
    using v h1 h2 atleta_post_unknown_centro[OF v h1 h2, of env3] by (simp add: pedro_def)
qed

section \<open>Reading by id\<close>

text \<open>
  C9, where the id is not a version-4 UUID. No row of \<open>db3\<close> has the nil UUID as its id,
  and both get-by-id requests for it are answered 422 before the handler runs, not 404.
\<close>

theorem get_by_id_nil_uuid:
  "\<not> list_ex (\<lambda>r. getattr r ''id'' = Some (VUuid 0)) (atletas db3)
   \<and> \<not> list_ex (\<lambda>r. getattr r ''id'' = Some (VUuid 0)) (centros_treinamento db3)
   \<and> handle env3 (GetAtleta 0) db3 = ((422, UnprocessableEntity), db3)
   \<and> handle env3 (GetCentroTreinamento 0) db3 = ((422, UnprocessableEntity), db3)"
  by (simp add: db3_def joao_row_def ct_king_row_def getattr_def UUID4_valid_def
        UUID_version_def)

text \<open>
  C9. For a version-4 UUID that no stored athlete has as its id, the athlete's get-by-id
  is answered 404 with a message that contains the id as \<^verbatim>\<open>str\<close> writes it; and
  likewise the training center's get-by-id for a version-4 UUID that no stored training
  center has.
\<close>

theorem get_by_id_unknown:
  assumes "UUID4_valid i"
  shows "(\<not> list_ex (\<lambda>r. getattr r ''id'' = Some (VUuid i)) (atletas d) \<longrightarrow>
      handle w (GetAtleta i) d = ((404, Detail (atleta_nao_encontrado i)), d)
      \<and> sublist (uuid_str i) (atleta_nao_encontrado i))
   \<and> (\<not> list_ex (\<lambda>r. getattr r ''id'' = Some (VUuid i)) (centros_treinamento d) \<longrightarrow>
      handle w (GetCentroTreinamento i) d
        = ((404, Detail (centro_treinamento_nao_encontrado i)), d)
      \<and> sublist (uuid_str i) (centro_treinamento_nao_encontrado i))"
  using assms
  by (auto simp: atleta_get_by_id_def centro_treinamento_get_by_id_def get_session_def
        close_def select_def table_def filter_by_def respond_def sublist_atleta_id
        sublist_centro_id dest!: first_filter_None)

theorem get_by_id_unknown_witness:
  "UUID4_valid 0x77777777777747778777777777777777
   \<and> \<not> list_ex (\<lambda>r. getattr r ''id'' = Some (VUuid 0x77777777777747778777777777777777)) (atletas db3)
   \<and> handle env3 (GetAtleta 0x77777777777747778777777777777777) db3 = ((404, Detail (atleta_nao_encontrado 0x77777777777747778777777777777777)), db3)
   \<and> sublist (uuid_str 0x77777777777747778777777777777777) (atleta_nao_encontrado 0x77777777777747778777777777777777)
   \<and> \<not> list_ex (\<lambda>r. getattr r ''id'' = Some (VUuid 0x77777777777747778777777777777777)) (centros_treinamento db3)
   \<and> handle env3 (GetCentroTreinamento 0x77777777777747778777777777777777) db3
        = ((404, Detail (centro_treinamento_nao_encontrado 0x77777777777747778777777777777777)), db3)
   \<and> sublist (uuid_str 0x77777777777747778777777777777777) (centro_treinamento_nao_encontrado 0x77777777777747778777777777777777)"
proof -
  have v: "UUID4_valid 0x77777777777747778777777777777777"
    by (simp add: UUID4_valid_def UUID_version_def)
  have h1: "\<not> list_ex (\<lambda>r. getattr r ''id'' = Some (VUuid 0x77777777777747778777777777777777)) (atletas db3)"
    by (simp add: db3_def joao_row_def getattr_def)
  have h2: "\<not> list_ex (\<lambda>r. getattr r ''id'' = Some (VUuid 0x77777777777747778777777777777777)) (centros_treinamento db3)"
    by (simp add: db3_def ct_king_row_def getattr_def)
  show ?thesis
    using v h1 h2 get_by_id_unknown[OF v, of db3 env3] by blast
qed

section \<open>Creating a training center\<close>

text \<open>
  C10. The response to a training-center create request is a function of the request
  and of what \<^verbatim>\<open>uuid4\<close> returned, not of the database: when the body is valid and the
  commit goes through, it is 201 with the three input fields unchanged and the generated
  id.
\<close>

theorem centro_treinamento_post_echo:
  "fst (handle w (PostCentroTreinamento c) d) =
     (if \<not> CentroTreinamentoIn_valid c then (422, UnprocessableEntity)
      else if commit_fails w then (500, InternalServerError)
      else (201, CentroTreinamentoJson
                   \<lparr>CentroTreinamentoIn.nome = CentroTreinamentoIn.nome c,
                    endereco = endereco c, proprietario = proprietario c,
                    id' = uuid4 w\<rparr>))"
  by (simp add: centro_treinamento_post_def CentroTreinamentoIn_valid_def call_kwargs_def
        CentroTreinamentoIn_model_dump_def CentroTreinamentoOut_validate_def getattr_def
        await_def commit_def respond_def UUID4_valid_uuid4)

section \<open>The example run, step by step\<close>

lemma run1: "handle env1 (PostCategoria scale) empty_database
   = ((201, CategoriaJson [(''id'', VUuid 0x11111111111141118111111111111111), (''nome'', VStr ''Scale'')]), db1)"
  by (simp add: example_defs session_defs handler_defs)

lemma run2: "handle env2 (PostCentroTreinamento ct_king) db1
   = ((201, CentroTreinamentoJson
        \<lparr>CentroTreinamentoIn.nome = ''CT King'', endereco = ''Rua X, Q02'',
         proprietario = ''Marcos'', id' = 0x22222222222242228222222222222222\<rparr>), db2)"
  by (simp add: example_defs session_defs handler_defs)

lemma run3: "handle env3 (PostAtleta joao) db2 = ((201, AtletaJson joao_out), db3)"
  by (simp add: example_defs session_defs handler_defs)

lemma reachable_db2: "reachable db2"
proof -
  have "reaches empty_database (snd (handle env1 (PostCategoria scale) empty_database))"
    by (rule reaches_step[OF reaches_refl])
  then have "reaches empty_database db1" by (simp only: run1 snd_conv)
  then have "reaches empty_database (snd (handle env2 (PostCentroTreinamento ct_king) db1))"
    by (rule reaches_step)
  then show ?thesis by (simp only: run2 snd_conv reachable_def)
qed

lemma reachable_db3: "reachable db3"
proof -
  have "reaches empty_database (snd (handle env3 (PostAtleta joao) db2))"
    using reachable_db2 unfolding reachable_def by (rule reaches_step)
  then show ?thesis by (simp only: run3 snd_conv reachable_def)
qed

section \<open>Updating and deleting an athlete\<close>

text \<open>
  C1. On the database \<open>db3\<close>, whose one athlete is named Joao, the PATCH of that
  athlete's id with the payload that sets only \<^verbatim>\<open>nome\<close> to Bia is answered 200 with
  the merged representation (the name is Bia, every other field as before), but the
  database after the request is \<open>db3\<close> itself: the merged record is not persisted, and a
  get-by-id of the same id still gives the name Joao.
\<close>

theorem atleta_patch_not_persisted:
  "handle env3 (PatchAtleta 0x33333333333343338333333333333333 \<lparr>fields_set = [(''nome'', VStr ''Bia'')]\<rparr>) db3
     = ((200, AtletaJson
          [(''id'', VUuid 0x33333333333343338333333333333333),
           (''create_at'', VDatetime \<lparr>wall_clock = 3000, tzinfo = None\<rparr>),
           (''nome'', VStr ''Bia''), (''idade'', VInt 25),
           (''categoria'', VObj [(''nome'', VStr ''Scale'')]),
           (''centro_treinamento'', VObj [(''nome'', VStr ''CT King'')])]),
        db3)
   \<and> fst (handle env3 (GetAtleta 0x33333333333343338333333333333333) db3) = (200, AtletaJson joao_out)
   \<and> getattr joao_out ''nome'' = Some (VStr ''Joao'')"
  by (simp add: example_defs session_defs handler_defs)

text \<open>
  C6. On the database \<open>db3\<close>, the DELETE of the stored athlete's id is answered 204
  with no content, but the database after the request is \<open>db3\<close> itself: the row is not
  removed, and the get-by-id of the same id that follows is answered 200 with the
  athlete.
\<close>

theorem atleta_delete_not_applied:
  "handle env3 (DeleteAtleta 0x33333333333343338333333333333333) db3 = ((204, NoContent), db3)
   \<and> fst (handle env3 (GetAtleta 0x33333333333343338333333333333333) (snd (handle env3 (DeleteAtleta 0x33333333333343338333333333333333) db3)))
       = (200, AtletaJson joao_out)"
  by (simp add: example_defs session_defs handler_defs)

section \<open>Rows and primary keys\<close>

lemma getattr_setattr:
  "getattr (setattr ob k v) k' = (if k' = k then Some v else getattr ob k')"
  by (simp add: getattr_def setattr_def update_conv')

lemma getattr_exclude:
  "getattr (model_dump_exclude ks ob) k = (if k \<in> set ks then None else getattr ob k)"
  by (induction ob) (auto simp: getattr_def model_dump_exclude_def)

lemma map_of_exclude:
  "map_of (model_dump_exclude ks ob) k = (if k \<in> set ks then None else map_of ob k)"
  using getattr_exclude[of ks ob k] by (simp add: getattr_def)

lemma pk_of_le_max: "r \<in> set rows \<Longrightarrow> pk_of r \<le> foldr max (map pk_of rows) 0"
  by (induction rows) auto

lemma pk_of_lt_next: "r \<in> set rows \<Longrightarrow> pk_of r < next_pk rows"
  using pk_of_le_max[of r rows] by (simp add: next_pk_def)

lemma pk_of_getattr: "getattr r ''pk_id'' = Some (VInt k) \<Longrightarrow> pk_of r = k"
  by (simp add: pk_of_def)

lemma has_pk_getattr: "has_pk r \<Longrightarrow> getattr r ''pk_id'' = Some (VInt (pk_of r))"
  by (auto simp: has_pk_def pk_of_def split: option.splits val.splits)

lemma has_pk_new: "has_pk (setattr ob ''pk_id'' (VInt k))"
  by (simp add: has_pk_def getattr_setattr)

lemma pk_of_new: "pk_of (setattr ob ''pk_id'' (VInt k)) = k"
  by (simp add: pk_of_def getattr_setattr)

lemma foldr_max_mono: "(a::int) \<le> b \<Longrightarrow> foldr max xs a \<le> foldr max xs b"
  by (induction xs) auto

lemma next_pk_append: "next_pk rows \<le> next_pk (rows @ extra)"
proof -
  have "(0::int) \<le> foldr max (map pk_of extra) 0" by (induction extra) auto
  then show ?thesis by (simp add: next_pk_def foldr_max_mono)
qed

lemma primary_key_ok_append:
  assumes "primary_key_ok rows"
  shows "primary_key_ok (rows @ [setattr ob ''pk_id'' (VInt (next_pk rows))])"
proof -
  have "next_pk rows \<notin> pk_of ` set rows"
    using pk_of_lt_next[of _ rows] by force
  with assms show ?thesis
    by (simp add: primary_key_ok_def has_pk_new pk_of_new)
qed

lemma references_append:
  assumes "references fk rows"
  shows "references fk (rows @ [setattr ob ''pk_id'' (VInt (next_pk rows))])"
proof -
  from assms obtain k where fk: "fk = Some (VInt k)"
    and len: "length (filter_by ''pk_id'' (VInt k) rows) = 1"
    by (auto simp: references_def split: option.splits val.splits)
  from len have "filter_by ''pk_id'' (VInt k) rows \<noteq> []" by auto
  then obtain r where "r \<in> set rows" "getattr r ''pk_id'' = Some (VInt k)"
    by (auto simp: filter_by_def filter_empty_conv)
  then have "k < next_pk rows" using pk_of_lt_next[of r rows] pk_of_getattr[of r k] by simp
  then show ?thesis using fk len
    by (simp add: references_def filter_by_def getattr_setattr)
qed

lemma distinct_map_filter_eq:
  "distinct (map f xs) \<Longrightarrow> x \<in> set xs \<Longrightarrow> filter (\<lambda>y. f y = f x) xs = [x]"
proof (induction xs)
  case Nil
  then show ?case by simp
next
  case (Cons a xs)
  show ?case
  proof (cases "a = x")
    case True
    with Cons.prems have "\<forall>y\<in>set xs. f y \<noteq> f x" by (auto simp: image_iff)
    then have "filter (\<lambda>y. f y = f x) xs = []" by (simp add: filter_empty_conv)
    with True show ?thesis by simp
  next
    case False
    with Cons.prems have "x \<in> set xs" "f a \<noteq> f x" by (auto simp: image_iff)
    with Cons show ?thesis by simp
  qed
qed

lemma filter_by_pk:
  assumes "primary_key_ok rows" "c \<in> set rows" "getattr c ''pk_id'' = Some v"
  shows "v = VInt (pk_of c) \<and> filter_by ''pk_id'' v rows = [c]"
proof -
  from assms have hp: "\<forall>r\<in>set rows. has_pk r" and di: "distinct (map pk_of rows)"
    by (auto simp: primary_key_ok_def list_all_iff)
  from hp assms(2,3) have v: "v = VInt (pk_of c)" using has_pk_getattr[of c] by auto
  have "(getattr r ''pk_id'' = Some v) = (pk_of r = pk_of c)" if "r \<in> set rows" for r
  proof -
    from hp that have "getattr r ''pk_id'' = Some (VInt (pk_of r))"
      by (simp add: has_pk_getattr)
    then show ?thesis by (simp add: v)
  qed
  then have "filter (\<lambda>r. getattr r ''pk_id'' = Some v) rows
             = filter (\<lambda>r. pk_of r = pk_of c) rows"
    by (simp cong: filter_cong)
  also have "\<dots> = [c]" using distinct_map_filter_eq[OF di assms(2)] .
  finally show ?thesis using v by (simp add: filter_by_def)
qed

lemma references_member:
  assumes "primary_key_ok rows" "c \<in> set rows" "getattr c ''pk_id'' = Some v"
  shows "references (Some v) rows"
  using filter_by_pk[OF assms] by (auto simp: references_def)

lemma first_filter_SomeD: "first (filter P xs) = Some x \<Longrightarrow> x \<in> set xs \<and> P x"
  by (induction xs) (auto simp: first_def split: if_splits)

lemma not_list_ex_filter: "\<not> list_ex P xs \<Longrightarrow> filter P xs = []"
  by (simp add: list_ex_iff filter_empty_conv)

lemma centro_names_ok_append:
  assumes "centro_names_ok rows" "CentroTreinamentoIn_valid c"
  shows "centro_names_ok (rows @
            [setattr
                [(''nome'', VStr (CentroTreinamentoIn.nome c)),
                 (''endereco'', VStr (endereco c)),
                 (''proprietario'', VStr (proprietario c)),
                 (''id'', VUuid u)]
                ''pk_id'' v])"
  using assms
  by (simp add: centro_names_ok_def getattr_setattr CentroTreinamentoIn_valid_def
        max_lengths_ok_def) (simp add: getattr_def)

lemma centro_names_okD:
  "centro_names_ok rows \<Longrightarrow> t \<in> set rows \<Longrightarrow> getattr t ''nome'' = Some (VStr n)
   \<Longrightarrow> length n \<le> 20"
  by (auto simp: centro_names_ok_def list_all_iff)

section \<open>What a request does to the database\<close>

lemma fold_orm_setattr_bind: "bind (snd (fold (orm_setattr m) kvs st)) = bind (snd st)"
  by (induction kvs arbitrary: st) (auto simp: orm_setattr_def split: prod.splits)

lemma handle_unchanged:
  "snd (handle w (GetAllAtletas lim off) d) = d"
  "snd (handle w (GetAtleta i) d) = d"
  "snd (handle w (PatchAtleta i u) d) = d"
  "snd (handle w (DeleteAtleta i) d) = d"
  "snd (handle w (GetAllCentrosTreinamento lim off) d) = d"
  "snd (handle w (GetCentroTreinamento i) d) = d"
  by (simp_all add: atleta_get_all_def atleta_get_by_id_def atleta_patch_def
        atleta_delete_def centro_treinamento_get_all_def centro_treinamento_get_by_id_def
        get_session_def close_def Let_def fold_orm_setattr_bind
        split: option.splits sum.splits prod.splits)

lemma handle_PostCategoria_db:
  "snd (handle w (PostCategoria c) d) =
     (if commit_fails w then d
      else d\<lparr>categorias := categorias d @
             [setattr [(''id'', VUuid (uuid4 w)), (''nome'', VStr (CategoriaIn.nome c))]
                ''pk_id'' (VInt (next_pk (categorias d)))]\<rparr>)"
  by (simp add: categoria_post_def call_kwargs_def CategoriaIn_model_dump_def
        get_session_def close_def await_def commit_def add_def flush_def insert_row_def
        table_update_def)

lemma handle_PostCentroTreinamento_db:
  "snd (handle w (PostCentroTreinamento c) d) =
     (if commit_fails w \<or> \<not> CentroTreinamentoIn_valid c then d
      else d\<lparr>centros_treinamento := centros_treinamento d @
             [setattr
                [(''nome'', VStr (CentroTreinamentoIn.nome c)),
                 (''endereco'', VStr (endereco c)),
                 (''proprietario'', VStr (proprietario c)),
                 (''id'', VUuid (uuid4 w))]
                ''pk_id'' (VInt (next_pk (centros_treinamento d)))]\<rparr>)"
  by (simp add: centro_treinamento_post_def call_kwargs_def
        CentroTreinamentoIn_model_dump_def CentroTreinamentoOut_validate_def
        CentroTreinamentoOut_model_dump_def CentroTreinamentoIn_valid_def getattr_def
        get_session_def close_def await_def commit_def add_def flush_def insert_row_def
        table_update_def UUID4_valid_uuid4)

lemma handle_PostAtleta_found:
  assumes "AtletaIn_valid a"
    and "first (filter_by ''nome'' (VStr (CategoriaIn.nome (AtletaIn.categoria a)))
                       (categorias d)) = Some c"
    and "first (filter_by ''nome''
        (VStr (CentroTreinamentoAtleta.nome (AtletaIn.centro_treinamento a)))
                       (centros_treinamento d)) = Some t"
    and "getattr c ''pk_id'' = Some kc" and "getattr t ''pk_id'' = Some kt"
  shows "handle w (PostAtleta a) d =
    (if repeats_keyword a \<or> commit_fails w then ((500, Detail erro_ao_inserir), d)
     else ((201, AtletaJson (atleta_created w a)),
           d\<lparr>atletas := atletas d @
                 [setattr (atleta_new_row w a kc kt) ''pk_id''
                    (VInt (next_pk (atletas d)))]\<rparr>))"
  using assms
  by (simp add: atleta_post_def atleta_post_try_def get_session_def close_def select_def
          table_def call_kwargs_def await_def commit_def add_def flush_def insert_row_def
          table_update_def atleta_new_row_def atleta_created_def repeats_keyword_def
          datetime_now_def replace_tzinfo_def AtletaIn_model_dump_def respond_def Let_def)

lemma handle_PostAtleta_db:
  "snd (handle w (PostAtleta a) d) = d
   \<or> (\<exists>c t kc kt. c \<in> set (categorias d) \<and> getattr c ''pk_id'' = Some kc
        \<and> t \<in> set (centros_treinamento d) \<and> getattr t ''pk_id'' = Some kt
        \<and> snd (handle w (PostAtleta a) d) =
            d\<lparr>atletas := atletas d @
                 [setattr (atleta_new_row w a kc kt) ''pk_id''
                    (VInt (next_pk (atletas d)))]\<rparr>)"
proof (cases "snd (handle w (PostAtleta a) d) = d")
  case True
  then show ?thesis by simp
next
  case False
  then have v: "AtletaIn_valid a" by (cases "AtletaIn_valid a") simp_all
  from False v obtain c where
    c: "first (filter_by ''nome'' (VStr (CategoriaIn.nome (AtletaIn.categoria a)))
                       (categorias d)) = Some c"
    by (cases "first (filter_by ''nome'' (VStr (CategoriaIn.nome (AtletaIn.categoria a)))
                       (categorias d))")
       (auto simp: atleta_post_def get_session_def close_def select_def table_def)
  from False v c obtain t where t: "first (filter_by ''nome''
        (VStr (CentroTreinamentoAtleta.nome (AtletaIn.centro_treinamento a)))
                       (centros_treinamento d)) = Some t"
    by (cases "first (filter_by ''nome''
        (VStr (CentroTreinamentoAtleta.nome (AtletaIn.centro_treinamento a)))
                       (centros_treinamento d))")
       (auto simp: atleta_post_def get_session_def close_def select_def table_def)
  have cin: "c \<in> set (categorias d)" and tin: "t \<in> set (centros_treinamento d)"
    using c t by (auto simp: filter_by_def dest: first_filter_SomeD)
  from False v c t obtain kc where kc: "getattr c ''pk_id'' = Some kc"
    by (cases "getattr c ''pk_id''")
       (auto simp: atleta_post_def atleta_post_try_def get_session_def close_def select_def
          table_def split: sum.splits)
  from False v c t kc obtain kt where kt: "getattr t ''pk_id'' = Some kt"
    by (cases "getattr t ''pk_id''")
       (auto simp: atleta_post_def atleta_post_try_def get_session_def close_def select_def
          table_def split: sum.splits)
  from False have "snd (handle w (PostAtleta a) d) =
            d\<lparr>atletas := atletas d @
                 [setattr (atleta_new_row w a kc kt) ''pk_id''
                    (VInt (next_pk (atletas d)))]\<rparr>"
    unfolding handle_PostAtleta_found[OF v c t kc kt] by (simp split: if_splits)
  with cin tin kc kt show ?thesis by blast
qed

lemma handle_atletas:
  "atletas (snd (handle w req d)) = atletas d
   \<or> (\<exists>ob. atletas (snd (handle w req d))
         = atletas d @ [setattr ob ''pk_id'' (VInt (next_pk (atletas d)))])"
proof (cases req)
  case (PostAtleta a)
  with handle_PostAtleta_db[of w a d] show ?thesis by auto
qed (simp_all add: handle_unchanged handle_PostCategoria_db handle_PostCentroTreinamento_db
       del: handle.simps)

lemma reaches_atletas:
  "reaches d d' \<Longrightarrow>
     \<exists>extra. atletas d' = atletas d @ extra \<and> (\<forall>r\<in>set extra. next_pk (atletas d) \<le> pk_of r)"
proof (induction rule: reaches.induct)
  case (reaches_refl d)
  then show ?case by simp
next
  case (reaches_step d d' w req)
  then obtain extra where m: "atletas d' = atletas d @ extra"
    "\<forall>r\<in>set extra. next_pk (atletas d) \<le> pk_of r" by blast
  from handle_atletas[of w req d'] show ?case
  proof
    assume "atletas (snd (handle w req d')) = atletas d'"
    with m show ?thesis by auto
  next
    assume "\<exists>ob. atletas (snd (handle w req d'))
         = atletas d' @ [setattr ob ''pk_id'' (VInt (next_pk (atletas d')))]"
    then obtain ob where "atletas (snd (handle w req d'))
         = atletas d @ (extra @ [setattr ob ''pk_id'' (VInt (next_pk (atletas d')))])"
      using m by auto
    moreover have "next_pk (atletas d) \<le> next_pk (atletas d')"
      using m(1) next_pk_append by simp
    ultimately show ?thesis using m(2) by (auto simp: pk_of_new)
  qed
qed

lemma atleta_new_row_fks:
  "getattr (setattr (atleta_new_row w a kc kt) ''pk_id'' v) ''categoria_id'' = Some kc"
  "getattr (setattr (atleta_new_row w a kc kt) ''pk_id'' v) ''centro_treinamento_id'' = Some kt"
  by (simp_all add: atleta_new_row_def getattr_setattr)

lemma atleta_new_row_id:
  "getattr (setattr (atleta_new_row w a kc kt) ''pk_id'' v) ''id'' = Some (VUuid (uuid4 w))"
  by (simp add: atleta_new_row_def getattr_setattr getattr_exclude) (simp add: getattr_def)

section \<open>Reachable databases are well-formed\<close>

lemma foreign_keys_ok_categorias_append:
  assumes "foreign_keys_ok d"
  shows "foreign_keys_ok (d\<lparr>categorias := categorias d @
            [setattr ob ''pk_id'' (VInt (next_pk (categorias d)))]\<rparr>)"
  using assms by (auto simp: foreign_keys_ok_def list_all_iff intro: references_append)

lemma foreign_keys_ok_centros_append:
  assumes "foreign_keys_ok d"
  shows "foreign_keys_ok (d\<lparr>centros_treinamento := centros_treinamento d @
            [setattr ob ''pk_id'' (VInt (next_pk (centros_treinamento d)))]\<rparr>)"
  using assms by (auto simp: foreign_keys_ok_def list_all_iff intro: references_append)

lemma foreign_keys_ok_atletas_append:
  assumes "foreign_keys_ok d" "primary_key_ok (categorias d)"
    "primary_key_ok (centros_treinamento d)"
    "c \<in> set (categorias d)" "getattr c ''pk_id'' = Some kc"
    "t \<in> set (centros_treinamento d)" "getattr t ''pk_id'' = Some kt"
  shows "foreign_keys_ok (d\<lparr>atletas := atletas d @
            [setattr (atleta_new_row w a kc kt) ''pk_id'' v]\<rparr>)"
  using assms references_member[of "categorias d" c kc]
    references_member[of "centros_treinamento d" t kt]
  by (simp add: foreign_keys_ok_def atleta_new_row_fks)

lemma wellformed_handle:
  assumes "wellformed d"
  shows "wellformed (snd (handle w req d))"
proof (cases req)
  case (PostAtleta a)
  from handle_PostAtleta_db[of w a d] show ?thesis
  proof
    assume "snd (handle w (PostAtleta a) d) = d"
    with assms PostAtleta show ?thesis by simp
  next
    assume "\<exists>c t kc kt. c \<in> set (categorias d) \<and> getattr c ''pk_id'' = Some kc
        \<and> t \<in> set (centros_treinamento d) \<and> getattr t ''pk_id'' = Some kt
        \<and> snd (handle w (PostAtleta a) d) =
            d\<lparr>atletas := atletas d @
                 [setattr (atleta_new_row w a kc kt) ''pk_id''
                    (VInt (next_pk (atletas d)))]\<rparr>"
    then obtain c t kc kt where h: "c \<in> set (categorias d)" "getattr c ''pk_id'' = Some kc"
        "t \<in> set (centros_treinamento d)" "getattr t ''pk_id'' = Some kt"
        and eq: "snd (handle w (PostAtleta a) d) =
            d\<lparr>atletas := atletas d @
                 [setattr (atleta_new_row w a kc kt) ''pk_id''
                    (VInt (next_pk (atletas d)))]\<rparr>"
      by blast
    from assms have "foreign_keys_ok (d\<lparr>atletas := atletas d @
            [setattr (atleta_new_row w a kc kt) ''pk_id'' (VInt (next_pk (atletas d)))]\<rparr>)"
      by (intro foreign_keys_ok_atletas_append[OF _ _ _ h]) (simp_all add: wellformed_def)
    with assms show ?thesis
      unfolding PostAtleta eq by (simp add: wellformed_def primary_key_ok_append)
  qed
next
  case (PostCentroTreinamento c)
  with assms show ?thesis
    using foreign_keys_ok_centros_append[of d]
    by (simp add: handle_PostCentroTreinamento_db wellformed_def primary_key_ok_append
          centro_names_ok_append del: handle.simps)
next
  case (PostCategoria c)
  with assms show ?thesis
    using foreign_keys_ok_categorias_append[of d]
    by (simp add: handle_PostCategoria_db wellformed_def primary_key_ok_append
          del: handle.simps)
qed (use assms in \<open>simp_all add: handle_unchanged del: handle.simps\<close>)

lemma wellformed_empty: "wellformed empty_database"
  by (simp add: wellformed_def empty_database_def primary_key_ok_def foreign_keys_ok_def
        centro_names_ok_def)

lemma reaches_wellformed: "reaches d d' \<Longrightarrow> wellformed d \<Longrightarrow> wellformed d'"
  by (induction rule: reaches.induct) (auto intro: wellformed_handle)

lemma reachable_wellformed: "reachable d \<Longrightarrow> wellformed d"
  unfolding reachable_def using reaches_wellformed wellformed_empty by blast

lemma found_rows:
  assumes "wellformed d"
    and "list_ex (\<lambda>c. getattr c ''nome'' = Some (VStr (CategoriaIn.nome (AtletaIn.categoria a))))
          (categorias d)"
    and "list_ex (\<lambda>c. getattr c ''nome''
           = Some (VStr (CentroTreinamentoAtleta.nome (AtletaIn.centro_treinamento a))))
          (centros_treinamento d)"
  obtains c t where
    "first (filter_by ''nome'' (VStr (CategoriaIn.nome (AtletaIn.categoria a)))
                       (categorias d)) = Some c"
    "first (filter_by ''nome''
        (VStr (CentroTreinamentoAtleta.nome (AtletaIn.centro_treinamento a)))
                       (centros_treinamento d)) = Some t"
    "c \<in> set (categorias d)" "t \<in> set (centros_treinamento d)"
    "getattr c ''pk_id'' = Some (VInt (pk_of c))" "getattr t ''pk_id'' = Some (VInt (pk_of t))"
    "AtletaIn_valid a"
proof -
  from first_filter_Some[OF assms(2)] obtain c where
    c: "first (filter_by ''nome'' (VStr (CategoriaIn.nome (AtletaIn.categoria a)))
                       (categorias d)) = Some c" "c \<in> set (categorias d)"
    by (auto simp: filter_by_def)
  from first_filter_Some[OF assms(3)] obtain t where
    t: "first (filter_by ''nome''
        (VStr (CentroTreinamentoAtleta.nome (AtletaIn.centro_treinamento a)))
                       (centros_treinamento d)) = Some t" "t \<in> set (centros_treinamento d)"
    and tn: "getattr t ''nome''
        = Some (VStr (CentroTreinamentoAtleta.nome (AtletaIn.centro_treinamento a)))"
    by (auto simp: filter_by_def)
  from assms(1) c(2) t(2) have "has_pk c" "has_pk t"
    by (auto simp: wellformed_def primary_key_ok_def list_all_iff)
  then have "getattr c ''pk_id'' = Some (VInt (pk_of c))"
    "getattr t ''pk_id'' = Some (VInt (pk_of t))"
    by (simp_all add: has_pk_getattr)
  moreover from assms(1) have "centro_names_ok (centros_treinamento d)"
    by (simp add: wellformed_def)
  from centro_names_okD[OF this t(2) tn] have "AtletaIn_valid a"
    by (simp add: AtletaIn_valid_def CentroTreinamentoAtleta_valid_def)
  ultimately show ?thesis using c t that by blast
qed

text \<open>
  C7. In every database reached from the empty one by any sequence of requests, every
  athlete row has a category key and a training-center key that are not null, and
  exactly one category row and exactly one training-center row have these as their
  primary keys.
\<close>

theorem reachable_foreign_keys:
  assumes "reachable d" and "a \<in> set (atletas d)"
  shows "\<exists>kc kt. getattr a ''categoria_id'' = Some (VInt kc)
           \<and> length (filter_by ''pk_id'' (VInt kc) (categorias d)) = 1
           \<and> getattr a ''centro_treinamento_id'' = Some (VInt kt)
           \<and> length (filter_by ''pk_id'' (VInt kt) (centros_treinamento d)) = 1"
proof -
  from assms(1) have "foreign_keys_ok d"
    using reachable_wellformed by (simp add: wellformed_def)
  with assms(2) have "references (getattr a ''categoria_id'') (categorias d)"
    and "references (getattr a ''centro_treinamento_id'') (centros_treinamento d)"
    by (auto simp: foreign_keys_ok_def list_all_iff)
  then show ?thesis
    by (auto simp: references_def split: option.splits val.splits)
qed

theorem reachable_foreign_keys_witness:
  "reachable db3 \<and> joao_row \<in> set (atletas db3)
   \<and> getattr joao_row ''categoria_id'' = Some (VInt 1)
   \<and> filter_by ''pk_id'' (VInt 1) (categorias db3) = [scale_row]
   \<and> getattr joao_row ''centro_treinamento_id'' = Some (VInt 1)
   \<and> filter_by ''pk_id'' (VInt 1) (centros_treinamento db3) = [ct_king_row]"
proof -
  have m: "joao_row \<in> set (atletas db3)" by (simp add: db3_def)
  have "getattr joao_row ''categoria_id'' = Some (VInt 1)"
    "getattr joao_row ''centro_treinamento_id'' = Some (VInt 1)"
    "filter_by ''pk_id'' (VInt 1) (categorias db3) = [scale_row]"
    "filter_by ''pk_id'' (VInt 1) (centros_treinamento db3) = [ct_king_row]"
    by (simp_all add: example_defs getattr_def filter_by_def)
  with reachable_foreign_keys[OF reachable_db3 m] reachable_db3 m show ?thesis by simp
qed

section \<open>Failed requests\<close>

text \<open>
  C8. A request that is answered with an error status (400 or above), whatever the step
  that failed (a lookup that found nothing, the construction of the row, the commit),
  leaves the database as it was before the request.
\<close>

theorem failed_request_changes_nothing:
  assumes "400 \<le> fst (fst (handle w req d))"
  shows "snd (handle w req d) = d"
proof (cases req)
  case (PostAtleta a)
  show ?thesis
  proof (cases "AtletaIn_valid a")
    case False
    then show ?thesis unfolding PostAtleta by simp
  next
    case True
    note v = this
  show ?thesis
  proof (cases "first (filter_by ''nome'' (VStr (CategoriaIn.nome (AtletaIn.categoria a)))
                       (categorias d))")
    case None
    with v show ?thesis unfolding PostAtleta
      by (simp add: atleta_post_def session_defs)
  next
    case (Some c)
    show ?thesis 
    proof (cases "first (filter_by ''nome''
        (VStr (CentroTreinamentoAtleta.nome (AtletaIn.centro_treinamento a)))
                       (centros_treinamento d))")
      case None
      with v Some show ?thesis unfolding PostAtleta
        by (simp add: atleta_post_def get_session_def close_def select_def table_def)
    next
      case (Some t)
      note t = this
      show ?thesis
      proof (cases "getattr c ''pk_id''")
        case None
        with v \<open>first _ = Some c\<close> t show ?thesis unfolding PostAtleta
          by (simp add: atleta_post_def atleta_post_try_def get_session_def close_def
                select_def table_def split: sum.splits)
      next
        case (Some kc)
        note kc = this
        show ?thesis
        proof (cases "getattr t ''pk_id''")
          case None
          with v \<open>first _ = Some c\<close> t kc show ?thesis unfolding PostAtleta
            by (simp add: atleta_post_def atleta_post_try_def get_session_def close_def
                select_def table_def split: sum.splits)
        next
          case (Some kt)
          from assms show ?thesis
            unfolding PostAtleta handle_PostAtleta_found[OF v \<open>first _ = Some c\<close> t kc Some]
            by (auto split: if_splits)
        qed
      qed
    qed
  qed
  qed
next
  case (PostCentroTreinamento c)
  with assms show ?thesis
    by (simp add: centro_treinamento_post_def call_kwargs_def
        CentroTreinamentoIn_model_dump_def CentroTreinamentoOut_validate_def
        CentroTreinamentoIn_valid_def getattr_def get_session_def close_def await_def
        commit_def respond_def add_def Let_def UUID4_valid_uuid4 split: if_splits)
next
  case (PostCategoria c)
  with assms show ?thesis
    by (simp add: categoria_post_def call_kwargs_def CategoriaIn_model_dump_def
        get_session_def close_def await_def commit_def respond_def add_def Let_def
        split: if_splits)
qed (simp_all add: handle_unchanged del: handle.simps)

theorem failed_request_changes_nothing_witness:
  "400 \<le> fst (fst (handle env4 (PostAtleta joao) db2))
   \<and> handle env4 (PostAtleta joao) db2 = ((500, Detail erro_ao_inserir), db2)"
proof -
  have h: "handle env4 (PostAtleta joao) db2 = ((500, Detail erro_ao_inserir), db2)"
    by (simp add: example_defs session_defs handler_defs)
  then have "400 \<le> fst (fst (handle env4 (PostAtleta joao) db2))" by simp
  from failed_request_changes_nothing[OF this] h show ?thesis by simp
qed

section \<open>A created athlete\<close>

text \<open>
  C4, where the \<^verbatim>\<open>try\<close> block raises. Matching names are not enough for a 201: on
  \<open>db2\<close> both names of the request \<open>joao\<close> match stored rows, and when the commit fails
  the answer is 500 with the generic message and nothing is stored.
\<close>

theorem atleta_post_commit_fails:
  "list_ex (\<lambda>c. getattr c ''nome'' = Some (VStr (CategoriaIn.nome (AtletaIn.categoria joao))))
     (categorias db2)
   \<and> list_ex (\<lambda>c. getattr c ''nome''
         = Some (VStr (CentroTreinamentoAtleta.nome (AtletaIn.centro_treinamento joao))))
     (centros_treinamento db2)
   \<and> handle env4 (PostAtleta joao) db2 = ((500, Detail erro_ao_inserir), db2)"
  by (simp add: example_defs session_defs handler_defs)

text \<open>
  C4. When both names match stored rows, the payload has no field named
  \<^verbatim>\<open>id\<close> or \<^verbatim>\<open>create_at\<close> (the call of line 53 would raise) and the commit goes
  through, the request is answered 201 with the representation that starts with the id
  \<^verbatim>\<open>uuid4()\<close> returned and the naive UTC time the clock showed, followed by the
  payload's own fields; the stored row has that id, and in every database reached
  afterwards the row with its primary key still has that id.
\<close>

theorem atleta_post_created:
  assumes "reachable d"
    and "list_ex (\<lambda>c. getattr c ''nome'' = Some (VStr (CategoriaIn.nome (AtletaIn.categoria a))))
          (categorias d)"
    and "list_ex (\<lambda>c. getattr c ''nome''
           = Some (VStr (CentroTreinamentoAtleta.nome (AtletaIn.centro_treinamento a))))
          (centros_treinamento d)"
    and "''id'' \<notin> set (map fst (campos a))" and "''create_at'' \<notin> set (map fst (campos a))"
    and "\<not> commit_fails w"
  shows "fst (handle w (PostAtleta a) d) =
           (201, AtletaJson
                   ([(''id'', VUuid (uuid4 w)),
                     (''create_at'', VDatetime \<lparr>wall_clock = clock w, tzinfo = None\<rparr>)]
                    @ AtletaIn_model_dump a))
         \<and> (\<exists>r\<in>set (atletas (snd (handle w (PostAtleta a) d))).
               getattr r ''pk_id'' = Some (VInt (next_pk (atletas d)))
               \<and> getattr r ''id'' = Some (VUuid (uuid4 w)))
         \<and> (\<forall>d'' r. reaches (snd (handle w (PostAtleta a) d)) d'' \<longrightarrow> r \<in> set (atletas d'')
               \<longrightarrow> getattr r ''pk_id'' = Some (VInt (next_pk (atletas d)))
               \<longrightarrow> getattr r ''id'' = Some (VUuid (uuid4 w)))"
proof -
  from assms(1) have wf: "wellformed d" by (rule reachable_wellformed)
  from found_rows[OF wf assms(2,3)] obtain c t where
    c: "first (filter_by ''nome'' (VStr (CategoriaIn.nome (AtletaIn.categoria a)))
                       (categorias d)) = Some c"
    and t: "first (filter_by ''nome''
        (VStr (CentroTreinamentoAtleta.nome (AtletaIn.centro_treinamento a)))
                       (centros_treinamento d)) = Some t"
    and kc: "getattr c ''pk_id'' = Some (VInt (pk_of c))"
    and kt: "getattr t ''pk_id'' = Some (VInt (pk_of t))"
    and v: "AtletaIn_valid a"
    by blast
  define row where "row = setattr (atleta_new_row w a (VInt (pk_of c)) (VInt (pk_of t)))
                            ''pk_id'' (VInt (next_pk (atletas d)))"
  from assms(4,5) have nr: "\<not> repeats_keyword a"
    by (force simp: repeats_keyword_def list_ex_iff)
  have eq: "handle w (PostAtleta a) d =
              ((201, AtletaJson (atleta_created w a)), d\<lparr>atletas := atletas d @ [row]\<rparr>)"
    using handle_PostAtleta_found[OF v c t kc kt, of w] nr assms(6) by (simp add: row_def)
  have rid: "getattr row ''id'' = Some (VUuid (uuid4 w))"
    by (simp add: row_def atleta_new_row_id)
  have rpk: "getattr row ''pk_id'' = Some (VInt (next_pk (atletas d)))"
    by (simp add: row_def getattr_setattr)
  have later: "getattr r ''id'' = Some (VUuid (uuid4 w))"
    if re: "reaches (d\<lparr>atletas := atletas d @ [row]\<rparr>) d''" and rin: "r \<in> set (atletas d'')"
      and pk: "getattr r ''pk_id'' = Some (VInt (next_pk (atletas d)))" for d'' r
  proof -
    from reaches_atletas[OF re] obtain extra where
      m: "atletas d'' = (atletas d @ [row]) @ extra"
      "\<forall>r\<in>set extra. next_pk (atletas d @ [row]) \<le> pk_of r" by auto
    have pr: "pk_of r = next_pk (atletas d)" using pk by (rule pk_of_getattr)
    have "pk_of row < next_pk (atletas d @ [row])" by (rule pk_of_lt_next) simp
    moreover have "pk_of row = next_pk (atletas d)" using rpk by (rule pk_of_getattr)
    ultimately have "r \<notin> set extra" using m(2) pr by force
    moreover have "r \<notin> set (atletas d)" using pk_of_lt_next[of r "atletas d"] pr by auto
    ultimately have "r = row" using rin m(1) by auto
    with rid show ?thesis by simp
  qed
  show ?thesis
    unfolding eq using rid rpk later by (auto simp: atleta_created_def)
qed

theorem atleta_post_created_witness:
  "reachable db2
   \<and> list_ex (\<lambda>c. getattr c ''nome'' = Some (VStr (CategoriaIn.nome (AtletaIn.categoria joao))))
       (categorias db2)
   \<and> list_ex (\<lambda>c. getattr c ''nome''
         = Some (VStr (CentroTreinamentoAtleta.nome (AtletaIn.centro_treinamento joao))))
       (centros_treinamento db2)
   \<and> ''id'' \<notin> set (map fst (campos joao)) \<and> ''create_at'' \<notin> set (map fst (campos joao))
   \<and> \<not> commit_fails env3
   \<and> fst (handle env3 (PostAtleta joao) db2) = (201, AtletaJson joao_out)
   \<and> snd (handle env3 (PostAtleta joao) db2) = db3
   \<and> reaches db3 (snd (handle env4 (PatchAtleta 0x33333333333343338333333333333333 \<lparr>fields_set = [(''id'', VUuid 0x99999999999949998999999999999999)]\<rparr>) db3))
   \<and> joao_row \<in> set (atletas
         (snd (handle env4 (PatchAtleta 0x33333333333343338333333333333333 \<lparr>fields_set = [(''id'', VUuid 0x99999999999949998999999999999999)]\<rparr>) db3)))
   \<and> getattr joao_row ''pk_id'' = Some (VInt (next_pk (atletas db2)))
   \<and> getattr joao_row ''id'' = Some (VUuid (uuid4 env3))"
proof -
  have h2: "list_ex (\<lambda>c. getattr c ''nome''
                = Some (VStr (CategoriaIn.nome (AtletaIn.categoria joao)))) (categorias db2)"
    and h3: "list_ex (\<lambda>c. getattr c ''nome''
         = Some (VStr (CentroTreinamentoAtleta.nome (AtletaIn.centro_treinamento joao))))
       (centros_treinamento db2)"
    and h4: "''id'' \<notin> set (map fst (campos joao))"
    and h5: "''create_at'' \<notin> set (map fst (campos joao))"
    and h6: "\<not> commit_fails env3"
    by (simp_all add: example_defs getattr_def)
  note T = atleta_post_created[OF reachable_db2 h2 h3 h4 h5 h6]
  have s: "snd (handle env3 (PostAtleta joao) db2) = db3" by (simp only: run3 snd_conv)
  have p: "snd (handle env4 (PatchAtleta 0x33333333333343338333333333333333 \<lparr>fields_set = [(''id'', VUuid 0x99999999999949998999999999999999)]\<rparr>) db3) = db3"
    by (rule handle_unchanged)
  have r: "reaches db3 (snd (handle env4 (PatchAtleta 0x33333333333343338333333333333333 \<lparr>fields_set = [(''id'', VUuid 0x99999999999949998999999999999999)]\<rparr>) db3))"
    by (rule reaches_step[OF reaches_refl])
  have m: "joao_row \<in> set (atletas
         (snd (handle env4 (PatchAtleta 0x33333333333343338333333333333333 \<lparr>fields_set = [(''id'', VUuid 0x99999999999949998999999999999999)]\<rparr>) db3)))"
    unfolding p by (simp add: db3_def)
  have k: "getattr joao_row ''pk_id'' = Some (VInt (next_pk (atletas db2)))"
    by (simp add: example_defs getattr_def next_pk_def)
  from T have "getattr joao_row ''id'' = Some (VUuid (uuid4 env3))"
    using r m k unfolding s by blast
  moreover from T have "fst (handle env3 (PostAtleta joao) db2) = (201, AtletaJson joao_out)"
    by (simp add: example_defs AtletaIn_model_dump_def uuid4_def UUID_set_version4_def)
  ultimately show ?thesis
    using reachable_db2 h2 h3 h4 h5 h6 s r m k by blast
qed

text \<open>
  C5. When an athlete has been created (201) with an id no stored athlete had, and the
  payload's own field names are none of the names the row or the response use for the
  keys and the two nested objects, the get-by-id of the generated id on the database the
  create left is answered 200 with a representation that has the same fields with the
  same values as the one the create returned.
\<close>

theorem atleta_post_roundtrip:
  assumes "reachable d"
    and created: "handle w (PostAtleta a) d = ((201, AtletaJson out), d')"
    and fresh: "\<not> list_ex (\<lambda>r. getattr r ''id'' = Some (VUuid (uuid4 w))) (atletas d)"
    and names: "set (map fst (campos a))
                \<inter> {''pk_id'', ''categoria_id'', ''centro_treinamento_id'', ''categoria'',
                    ''centro_treinamento''} = {}"
  shows "getattr out ''id'' = Some (VUuid (uuid4 w))
         \<and> (\<exists>out'. handle w' (GetAtleta (uuid4 w)) d' = ((200, AtletaJson out'), d')
                    \<and> map_of out' = map_of out)"
proof -
  from assms(1) have wf: "wellformed d" by (rule reachable_wellformed)
  define cn where "cn = CategoriaIn.nome (AtletaIn.categoria a)"
  define tn where "tn = CentroTreinamentoAtleta.nome (AtletaIn.centro_treinamento a)"
  have v: "AtletaIn_valid a"
    using created by (cases "AtletaIn_valid a") simp_all
  obtain c where c: "first (filter_by ''nome'' (VStr cn) (categorias d)) = Some c"
    using created v
    by (cases "first (filter_by ''nome'' (VStr cn) (categorias d))")
       (auto simp: cn_def atleta_post_def get_session_def close_def select_def table_def
          respond_def)
  obtain t where t: "first (filter_by ''nome'' (VStr tn) (centros_treinamento d)) = Some t"
    using created v c
    by (cases "first (filter_by ''nome'' (VStr tn) (centros_treinamento d))")
       (auto simp: cn_def tn_def atleta_post_def get_session_def close_def select_def
          table_def respond_def)
  from c t have cin: "c \<in> set (categorias d)" and cnome: "getattr c ''nome'' = Some (VStr cn)"
    and tin: "t \<in> set (centros_treinamento d)" and tnome: "getattr t ''nome'' = Some (VStr tn)"
    by (auto simp: filter_by_def dest: first_filter_SomeD)
  from wf have pkc: "primary_key_ok (categorias d)"
    and pkt: "primary_key_ok (centros_treinamento d)"
    by (simp_all add: wellformed_def)
  from pkc pkt cin tin have kc: "getattr c ''pk_id'' = Some (VInt (pk_of c))"
    and kt: "getattr t ''pk_id'' = Some (VInt (pk_of t))"
    by (auto simp: primary_key_ok_def list_all_iff has_pk_getattr)
  define row where "row = setattr (atleta_new_row w a (VInt (pk_of c)) (VInt (pk_of t)))
                            ''pk_id'' (VInt (next_pk (atletas d)))"
  have eq: "((201::nat, AtletaJson out), d') =
    (if repeats_keyword a \<or> commit_fails w then ((500, Detail erro_ao_inserir), d)
     else ((201, AtletaJson (atleta_created w a)), d\<lparr>atletas := atletas d @ [row]\<rparr>))"
    unfolding created[symmetric] row_def
    by (rule handle_PostAtleta_found[OF v c[unfolded cn_def] t[unfolded tn_def] kc kt])
  have ok: "\<not> (repeats_keyword a \<or> commit_fails w)"
  proof
    assume "repeats_keyword a \<or> commit_fails w"
    with eq have "((201::nat, AtletaJson out), d') = ((500, Detail erro_ao_inserir), d)"
      by (simp only: if_True)
    then show False by simp
  qed
  with eq have "((201::nat, AtletaJson out), d')
      = ((201, AtletaJson (atleta_created w a)), d\<lparr>atletas := atletas d @ [row]\<rparr>)"
    by (simp only: if_False)
  then have out: "out = atleta_created w a" and d': "d' = d\<lparr>atletas := atletas d @ [row]\<rparr>"
    by simp_all
  have rid: "getattr row ''id'' = Some (VUuid (uuid4 w))"
    by (simp add: row_def atleta_new_row_id)
  have rc: "getattr row ''categoria_id'' = Some (VInt (pk_of c))"
    and rt: "getattr row ''centro_treinamento_id'' = Some (VInt (pk_of t))"
    by (simp_all add: row_def atleta_new_row_fks)
  have sel: "first (filter_by ''id'' (VUuid (uuid4 w)) (atletas d')) = Some row"
    using not_list_ex_filter[OF fresh] rid by (simp add: d' filter_by_def first_def)
  have relc: "first (filter_by ''pk_id'' (VInt (pk_of c)) (categorias d')) = Some c"
    using filter_by_pk[OF pkc cin kc] by (simp add: d' first_def)
  have relt: "first (filter_by ''pk_id'' (VInt (pk_of t)) (centros_treinamento d')) = Some t"
    using filter_by_pk[OF pkt tin kt] by (simp add: d' first_def)
  define out' where "out' =
     model_dump_exclude [''pk_id'', ''categoria_id'', ''centro_treinamento_id'',
                         ''categoria'', ''centro_treinamento''] row
     @ [(''categoria'', VObj [(''nome'', VStr cn)]),
        (''centro_treinamento'', VObj [(''nome'', VStr tn)])]"
  have get: "handle w' (GetAtleta (uuid4 w)) d' = ((200, AtletaJson out'), d')"
    using sel relc relt rc rt cnome tnome
    by (simp add: atleta_get_by_id_def atleta_response_model_def AtletaOut_model_validate_def
          relationship_def respond_def get_session_def close_def select_def table_def
          out'_def UUID4_valid_uuid4)
  have none: "map_of (campos a) k = None"
    if "k \<in> {''pk_id'', ''categoria_id'', ''centro_treinamento_id'', ''categoria'',
             ''centro_treinamento''}" for k
  proof -
    from names that have "k \<notin> set (map fst (campos a))" by blast
    then show ?thesis by (simp add: map_of_eq_None_iff)
  qed
  have outk: "map_of out k =
      (if k = ''id'' then Some (VUuid (uuid4 w))
       else if k = ''create_at''
         then Some (VDatetime \<lparr>wall_clock = clock w, tzinfo = None\<rparr>)
       else case map_of (campos a) k of
              Some v \<Rightarrow> Some v
            | None \<Rightarrow> map_of [(''categoria'', VObj [(''nome'', VStr cn)]),
                              (''centro_treinamento'', VObj [(''nome'', VStr tn)])] k)" for k
    by (simp add: out atleta_created_def AtletaIn_model_dump_def map_add_def cn_def tn_def
          cong: option.case_cong)
  have rowk: "map_of row k = map_of out k"
    if "k \<notin> {''pk_id'', ''categoria_id'', ''centro_treinamento_id'', ''categoria'',
             ''centro_treinamento''}" for k
    using that
    by (simp add: row_def atleta_new_row_def setattr_def update_conv' map_of_exclude out
          atleta_created_def)
  have "map_of out' k = map_of out k" for k
  proof (cases "k \<in> {''pk_id'', ''categoria_id'', ''centro_treinamento_id'', ''categoria'',
             ''centro_treinamento''}")
    case True
    then have "map_of out' k
       = map_of [(''categoria'', VObj [(''nome'', VStr cn)]),
                 (''centro_treinamento'', VObj [(''nome'', VStr tn)])] k"
      by (simp add: out'_def map_add_def map_of_exclude)
    moreover from True have "k \<noteq> ''id''" "k \<noteq> ''create_at''" by auto
    ultimately show ?thesis using none[OF True] by (simp only: outk if_False option.case)
  next
    case False
    then have "map_of [(''categoria'', VObj [(''nome'', VStr cn)]),
                 (''centro_treinamento'', VObj [(''nome'', VStr tn)])] k = None"
      by simp
    with False have "map_of out' k = map_of row k"
      by (simp add: out'_def map_add_def map_of_exclude split: option.splits)
    with rowk[OF False] show ?thesis by simp
  qed
  then have "map_of out' = map_of out" by (rule ext)
  moreover have "getattr out ''id'' = Some (VUuid (uuid4 w))"
    by (simp add: out atleta_created_def getattr_def)
  ultimately show ?thesis using get by blast
qed

theorem atleta_post_roundtrip_witness:
  "reachable db2
   \<and> handle env3 (PostAtleta joao) db2 = ((201, AtletaJson joao_out), db3)
   \<and> \<not> list_ex (\<lambda>r. getattr r ''id'' = Some (VUuid (uuid4 env3))) (atletas db2)
   \<and> set (map fst (campos joao))
       \<inter> {''pk_id'', ''categoria_id'', ''centro_treinamento_id'', ''categoria'',
           ''centro_treinamento''} = {}
   \<and> getattr joao_out ''id'' = Some (VUuid (uuid4 env3))
   \<and> handle env4 (GetAtleta (uuid4 env3)) db3 = ((200, AtletaJson joao_out), db3)"
proof -
  have f: "\<not> list_ex (\<lambda>r. getattr r ''id'' = Some (VUuid (uuid4 env3))) (atletas db2)"
    by (simp add: example_defs)
  have n: "set (map fst (campos joao))
       \<inter> {''pk_id'', ''categoria_id'', ''centro_treinamento_id'', ''categoria'',
           ''centro_treinamento''} = {}"
    by (simp add: example_defs)
  from atleta_post_roundtrip[OF reachable_db2 run3 f n, of env4]
  obtain out' where g: "handle env4 (GetAtleta (uuid4 env3)) db3 = ((200, AtletaJson out'), db3)"
    and i: "getattr joao_out ''id'' = Some (VUuid (uuid4 env3))"
    by blast
  have "handle env4 (GetAtleta (uuid4 env3)) db3 = ((200, AtletaJson joao_out), db3)"
    by (simp add: example_defs session_defs handler_defs)
  with reachable_db2 run3 f n i show ?thesis by blast
qed

end
